theory Spec2Isabelle
  imports Main
begin

section \<open>Lazy TikTok embeds: strings, DOM fragments and the embed objects\<close>

text \<open>
  The repository holds four overlapping implementations of the same poster-to-iframe
  hydration: the class \<open>TikTokEmbed\<close> with \<open>setupLazyLoading\<close> (the optimised script),
  an earlier \<open>TikTokEmbed\<close> with \<open>setupTikTokEmbeds\<close> (the orchestrated application),
  the inline \<open>hydrate\<close> closure on \<open>#tiktok-card\<close>, and the functions
  \<open>buildIframe\<close>, \<open>hydrateTikTok\<close> and \<open>initTikTok\<close> of \<open>app.js\<close>.
  Each is embedded below as state-passing functions over a small model of the DOM.
\<close>

subsection \<open>JavaScript values that the code relies on\<close>

datatype js_error = TypeError | ReferenceError

text \<open>A call either returns or throws; in both cases the mutations made so far persist.\<close>

datatype 's completion = Normal 's | Thrown js_error 's

fun state_of :: "'s completion \<Rightarrow> 's" where
  "state_of (Normal s) = s"
| "state_of (Thrown e s) = s"

fun threw :: "'s completion \<Rightarrow> bool" where
  "threw (Normal s) = False"
| "threw (Thrown e s) = True"

text \<open>\<open>String.prototype.split\<close> with a one-character separator: never an empty array.\<close>

fun split_on :: "char \<Rightarrow> string \<Rightarrow> string list" where
  "split_on c [] = [[]]"
| "split_on c (x # xs) =
     (if x = c then [] # split_on c xs
      else (case split_on c xs of
              [] \<Rightarrow> [[x]]
            | y # ys \<Rightarrow> (x # y) # ys))"

text \<open>Truthiness of a possibly undefined string, and its interpolation into a template.\<close>

fun truthy :: "string option \<Rightarrow> bool" where
  "truthy None = False"
| "truthy (Some s) = (s \<noteq> [])"

fun js_str :: "string option \<Rightarrow> string" where
  "js_str None = ''undefined''"
| "js_str (Some s) = s"

text \<open>\<open>x || d\<close> on a possibly undefined string.\<close>

fun or_else :: "string option \<Rightarrow> string \<Rightarrow> string" where
  "or_else None d = d"
| "or_else (Some s) d = (if s = [] then d else s)"

definition is_digit :: "char \<Rightarrow> bool" where
  "is_digit c = (c \<in> set ''0123456789'')"

text \<open>
  \<open>url.match(/video\/(\d+)/)\<close>, first capture group: the leftmost occurrence of
  \<open>video/\<close> that is followed by a digit, with the longest run of digits after it.
\<close>

fun match_video :: "string \<Rightarrow> string option" where
  "match_video [] = None"
| "match_video (c # cs) =
     (if take 6 (c # cs) = ''video/'' \<and> takeWhile is_digit (drop 6 (c # cs)) \<noteq> []
      then Some (takeWhile is_digit (drop 6 (c # cs)))
      else match_video cs)"

subsection \<open>URL objects and iframe elements\<close>

text \<open>
  A \<open>URL\<close> object is kept as the string that was given to its constructor and the
  search parameters set on it afterwards. The constructor cannot fail on the inputs
  built here (a fixed scheme and host followed by a path). What the URL parser makes of
  the string is not part of the object as modelled; see \<open>url_toString\<close> below.
\<close>

record url_obj =
  constructed_from :: string
  searchParams :: "(string \<times> string) list"

definition new_URL :: "string \<Rightarrow> url_obj" where
  "new_URL s = \<lparr>constructed_from = s, searchParams = []\<rparr>"

text \<open>\<open>searchParams.set\<close>: overwrite the first pair with the key and drop the others, or append.\<close>

fun set_pairs :: "string \<Rightarrow> string \<Rightarrow> (string \<times> string) list \<Rightarrow> (string \<times> string) list" where
  "set_pairs k v [] = [(k, v)]"
| "set_pairs k v (p # ps) =
     (if fst p = k then (k, v) # filter (\<lambda>q. fst q \<noteq> k) ps else p # set_pairs k v ps)"

definition searchParams_set :: "string \<Rightarrow> string \<Rightarrow> url_obj \<Rightarrow> url_obj" where
  "searchParams_set k v u = u\<lparr>searchParams := set_pairs k v (searchParams u)\<rparr>"

text \<open>
  Strings that the URL parser and the form serialiser leave as they are: non-empty, of
  letters, digits, \<open>-\<close> and \<open>_\<close> only (so no dot segment, no space, no \<open>#\<close>, no \<open>%\<close>).
\<close>

definition path_chars :: string where
  "path_chars = ''ABCDEFGHIJKLMNOPQRSTUVWXYZabcdefghijklmnopqrstuvwxyz0123456789-_''"

definition path_safe :: "string \<Rightarrow> bool" where
  "path_safe s = (s \<noteq> [] \<and> list_all (\<lambda>c. c \<in> set path_chars) s)"

fun query_string :: "(string \<times> string) list \<Rightarrow> string" where
  "query_string [] = []"
| "query_string [(k, v)] = k @ ''='' @ v"
| "query_string ((k, v) # p # ps) = k @ ''='' @ v @ ''&'' @ query_string (p # ps)"

text \<open>
  \<open>toString\<close> of a URL object, for the objects on which the string is certain without a
  model of the URL parser: the constructor string is \<open>https://www.tiktok.com/embed/v2/\<close>
  followed by one \<open>path_safe\<close> segment, and the parameter names and values are
  \<open>path_safe\<close>. For every other object the model leaves the string open (\<open>None\<close>):
  the parser may resolve dot segments, percent-encode characters or split off a fragment.
\<close>

definition url_toString :: "url_obj \<Rightarrow> string option" where
  "url_toString u =
     (if take 32 (constructed_from u) = ''https://www.tiktok.com/embed/v2/'' \<and>
         path_safe (drop 32 (constructed_from u)) \<and>
         list_all (\<lambda>p. path_safe (fst p) \<and> path_safe (snd p)) (searchParams u)
      then Some (constructed_from u @
                 (if searchParams u = [] then [] else CHR ''?'' # query_string (searchParams u)))
      else None)"

datatype src_value = SrcString string | SrcUrl url_obj

text \<open>The string that a \<open>src\<close> holds, where the model determines it.\<close>

fun src_string :: "src_value \<Rightarrow> string option" where
  "src_string (SrcString s) = Some s"
| "src_string (SrcUrl u) = url_toString u"

record iframe_el =
  src :: src_value
  frame_title :: string
  sandbox :: string
  referrerPolicy :: string
  loading :: string
  allow :: string
  allowFullscreen :: bool
  attributes :: "(string \<times> string) list"
  errorHandler :: bool
  loadHandler :: bool

definition createIframe :: iframe_el where
  "createIframe = \<lparr>src = SrcString [], frame_title = [], sandbox = [], referrerPolicy = [],
     loading = [], allow = [], allowFullscreen = False, attributes = [],
     errorHandler = False, loadHandler = False\<rparr>"

text \<open>All iframe elements created so far; an element is referred to by its index.\<close>

type_synonym heap = "iframe_el list"

subsection \<open>DOM fragments\<close>

text \<open>
  An element has a tag, attributes, the event types it has listeners for, and children.
  Markup assigned through \<open>innerHTML\<close> is kept as the element tree that the HTML parser
  builds from the template when every interpolated string is \<open>attr_safe\<close>: the string then
  stands as the attribute value, character for character. The templates interpolate
  without escaping, so for a string with a double quote, an ampersand, a NUL or a
  carriage return the parser builds another tree, which this model does not follow;
  statements about the content of such markup carry \<open>attr_safe\<close> as a hypothesis.
\<close>

definition attr_safe :: "string \<Rightarrow> bool" where
  "attr_safe s = list_all (\<lambda>c. c \<notin> set [CHR 0x22, CHR 0x26, CHR 0x00, CHR 0x0D]) s"

datatype node =
    Element string "(string \<times> string) list" "string list" "node list"
  | Text string
  | Iframe nat

fun iframes_in :: "node \<Rightarrow> nat list" where
  "iframes_in (Element t a l cs) = concat (map iframes_in cs)"
| "iframes_in (Text s) = []"
| "iframes_in (Iframe r) = [r]"

definition iframes_of :: "node list \<Rightarrow> nat list" where
  "iframes_of ns = concat (map iframes_in ns)"

fun hrefs_in :: "node \<Rightarrow> string list" where
  "hrefs_in (Element t a l cs) =
     (case map_of a ''href'' of
        Some h \<Rightarrow> (if t = ''a'' then [h] else [])
      | None \<Rightarrow> []) @ concat (map hrefs_in cs)"
| "hrefs_in (Text s) = []"
| "hrefs_in (Iframe r) = []"

definition hrefs_of :: "node list \<Rightarrow> string list" where
  "hrefs_of ns = concat (map hrefs_in ns)"

text \<open>
  The tokens of a \<open>class\<close> attribute: the maximal runs without ASCII whitespace (tab,
  line feed, form feed, carriage return, space).
\<close>

definition is_ascii_whitespace :: "char \<Rightarrow> bool" where
  "is_ascii_whitespace c = (c \<in> set [CHR 0x09, CHR 0x0A, CHR 0x0C, CHR 0x0D, CHR 0x20])"

fun split_where :: "(char \<Rightarrow> bool) \<Rightarrow> string \<Rightarrow> string list" where
  "split_where p [] = [[]]"
| "split_where p (x # xs) =
     (if p x then [] # split_where p xs
      else (case split_where p xs of
              [] \<Rightarrow> [[x]]
            | y # ys \<Rightarrow> (x # y) # ys))"

definition class_tokens :: "string \<Rightarrow> string list" where
  "class_tokens v = filter (\<lambda>t. t \<noteq> []) (split_where is_ascii_whitespace v)"

fun has_class :: "string \<Rightarrow> node \<Rightarrow> bool" where
  "has_class c (Element t a l cs) =
     (case map_of a ''class'' of
        Some v \<Rightarrow> c \<in> set (class_tokens v)
      | None \<Rightarrow> False)"
| "has_class c (Text s) = False"
| "has_class c (Iframe r) = False"

text \<open>\<open>querySelector\<close> by class: the first match in document order among the descendants.\<close>

fun find_node :: "(node \<Rightarrow> bool) \<Rightarrow> node \<Rightarrow> node option"
  and find_first :: "(node \<Rightarrow> bool) \<Rightarrow> node list \<Rightarrow> node option" where
  "find_node p (Element t a l cs) =
     (if p (Element t a l cs) then Some (Element t a l cs) else find_first p cs)"
| "find_node p (Text s) = None"
| "find_node p (Iframe r) = None"
| "find_first p [] = None"
| "find_first p (n # ns) =
     (case find_node p n of
        Some m \<Rightarrow> Some m
      | None \<Rightarrow> find_first p ns)"

text \<open>Mutating the element that \<open>querySelector\<close> returned; \<open>None\<close> when it returned null.\<close>

fun update_node :: "(node \<Rightarrow> bool) \<Rightarrow> (node \<Rightarrow> node) \<Rightarrow> node \<Rightarrow> node option"
  and update_first :: "(node \<Rightarrow> bool) \<Rightarrow> (node \<Rightarrow> node) \<Rightarrow> node list \<Rightarrow> node list option" where
  "update_node p f (Element t a l cs) =
     (if p (Element t a l cs) then Some (f (Element t a l cs))
      else (case update_first p f cs of
              Some cs' \<Rightarrow> Some (Element t a l cs')
            | None \<Rightarrow> None))"
| "update_node p f (Text s) = None"
| "update_node p f (Iframe r) = None"
| "update_first p f [] = None"
| "update_first p f (n # ns) =
     (case update_node p f n of
        Some n' \<Rightarrow> Some (n' # ns)
      | None \<Rightarrow> (case update_first p f ns of
                   Some ns' \<Rightarrow> Some (n # ns')
                 | None \<Rightarrow> None))"

fun set_attr :: "string \<Rightarrow> string \<Rightarrow> (string \<times> string) list \<Rightarrow> (string \<times> string) list" where
  "set_attr k v [] = [(k, v)]"
| "set_attr k v (p # ps) = (if fst p = k then (k, v) # ps else p # set_attr k v ps)"

fun setAttribute :: "string \<Rightarrow> string \<Rightarrow> node \<Rightarrow> node" where
  "setAttribute k v (Element t a l cs) = Element t (set_attr k v a) l cs"
| "setAttribute k v (Text s) = Text s"
| "setAttribute k v (Iframe r) = Iframe r"

fun removeAttribute :: "string \<Rightarrow> node \<Rightarrow> node" where
  "removeAttribute k (Element t a l cs) = Element t (filter (\<lambda>p. fst p \<noteq> k) a) l cs"
| "removeAttribute k (Text s) = Text s"
| "removeAttribute k (Iframe r) = Iframe r"

fun addEventListener :: "string \<Rightarrow> node \<Rightarrow> node" where
  "addEventListener ev (Element t a l cs) = Element t a (l @ [ev]) cs"
| "addEventListener ev (Text s) = Text s"
| "addEventListener ev (Iframe r) = Iframe r"

fun set_innerHTML :: "node list \<Rightarrow> node \<Rightarrow> node" where
  "set_innerHTML ns (Element t a l cs) = Element t a l ns"
| "set_innerHTML ns (Text s) = Text s"
| "set_innerHTML ns (Iframe r) = Iframe r"

fun appendChild :: "node \<Rightarrow> node \<Rightarrow> node" where
  "appendChild c (Element t a l cs) = Element t a l (cs @ [c])"
| "appendChild c (Text s) = Text s"
| "appendChild c (Iframe r) = Iframe r"

fun listeners :: "node \<Rightarrow> string list" where
  "listeners (Element t a l cs) = l"
| "listeners (Text s) = []"
| "listeners (Iframe r) = []"


subsection \<open>Containers and the class \<open>TikTokEmbed\<close>\<close>

text \<open>
  \<open>closest('.press-card')\<close> of a container: absent, or present with the inline
  \<open>display\<close> style of its \<open>.press-link\<close> when it has one.
\<close>

datatype press_card = NoPressCard | PressCard "string option"

text \<open>
  A \<open>.ttk\<close> container, taken to be a \<open>div\<close>: its \<open>data-*\<close> attributes, its children
  and its surroundings.
\<close>

record container =
  tiktokUrl :: "string option"
  dataTitle :: "string option"
  poster :: "string option"
  hydrated :: "string option"
  children :: "node list"
  pressCard :: press_card

record tiktok_embed =
  container :: container
  url :: "string option"
  title :: string
  posterSrc :: "string option"
  isLoaded :: bool
  iframe :: "nat option"

definition init :: "tiktok_embed \<Rightarrow> tiktok_embed" where
  "init e =
     (let c = container e;
          ns1 = (if truthy (posterSrc e)
                 then (case update_first (has_class ''ttk__poster-img'')
                              (setAttribute ''src'' (js_str (posterSrc e))) (children c) of
                         Some ns \<Rightarrow> ns
                       | None \<Rightarrow> children c)
                 else children c);
          ns2 = (case update_first (has_class ''ttk__poster'') (addEventListener ''click'') ns1 of
                   Some ns \<Rightarrow> ns
                 | None \<Rightarrow> ns1)
      in e\<lparr>container := c\<lparr>children := ns2\<rparr>\<rparr>)"

definition TikTokEmbed :: "container \<Rightarrow> tiktok_embed" where
  "TikTokEmbed c =
     init \<lparr>container = c, url = tiktokUrl c, title = or_else (dataTitle c) ''TikTok video'',
           posterSrc = poster c, isLoaded = False, iframe = None\<rparr>"

text \<open>\<open>this.url.split('/').pop().split('?')[0]\<close>\<close>

definition extractVideoId :: "string \<Rightarrow> string" where
  "extractVideoId u = hd (split_on CHR ''?'' (last (split_on CHR ''/'' u)))"

definition embed_base :: string where
  "embed_base = ''https://www.tiktok.com/embed/v2/''"

definition frameWrapper :: "nat \<Rightarrow> node" where
  "frameWrapper r = Element ''div'' [(''class'', ''ttk__frame'')] [] [Iframe r]"

text \<open>
  The optimised script: \<open>CONFIG\<close> has AUTOPLAY and MUTED true, CONTROLS 1, REL 0, LOOP 0.
  \<open>load\<close> throws when the container has no \<open>data-tiktok-url\<close> (\<open>split\<close> of undefined);
  on an empty identifier it warns on the console and returns.
\<close>

definition embedUrl :: "string \<Rightarrow> url_obj" where
  "embedUrl videoId =
     searchParams_set ''loop'' ''0''
       (searchParams_set ''rel'' ''0''
         (searchParams_set ''controls'' ''1''
           (searchParams_set ''muted'' ''1''
             (searchParams_set ''autoplay'' ''1'' (new_URL (embed_base @ videoId))))))"

definition load :: "heap \<Rightarrow> tiktok_embed \<Rightarrow> (heap \<times> tiktok_embed) completion" where
  "load h e =
     (if isLoaded e then Normal (h, e)
      else (case url e of
              None \<Rightarrow> Thrown TypeError (h, e)
            | Some u \<Rightarrow>
                (let videoId = extractVideoId u in
                 if videoId = [] then Normal (h, e)
                 else
                   (let r = length h;
                        el = createIframe\<lparr>src := SrcUrl (embedUrl videoId),
                               frame_title := title e,
                               sandbox := ''allow-scripts allow-same-origin allow-presentation'',
                               referrerPolicy := ''no-referrer-when-downgrade'',
                               attributes := [(''scrolling'', ''no'')],
                               allow := ''fullscreen'',
                               allowFullscreen := True,
                               errorHandler := True,
                               loadHandler := True\<rparr>
                    in Normal (h @ [el],
                         e\<lparr>iframe := Some r,
                           container := (container e)\<lparr>children := [frameWrapper r]\<rparr>,
                           isLoaded := True\<rparr>)))))"

definition play_glyph :: string where
  "play_glyph = [CHR 0xE2, CHR 0x96, CHR 0xB6]"

definition arrow_glyph :: string where
  "arrow_glyph = [CHR 0xE2, CHR 0x86, CHR 0x92]"

definition posterMarkup :: "string \<Rightarrow> string option \<Rightarrow> node list" where
  "posterMarkup t p =
     [Text ''\<newline>        '',
      Element ''button''
        [(''class'', ''ttk__poster''), (''type'', ''button''),
         (''aria-label'', ''Play TikTok video: '' @ t)] []
        [Text ''\<newline>          '',
         Element ''img''
           [(''class'', ''ttk__poster-img''), (''src'', js_str p),
            (''alt'', ''TikTok video preview: '' @ t), (''loading'', ''lazy''),
            (''decoding'', ''async'')] [] [],
         Text ''\<newline>          '',
         Element ''span'' [(''class'', ''ttk__play''), (''aria-hidden'', ''true'')] []
           [Text play_glyph],
         Text ''\<newline>        ''],
      Text ''\<newline>      '']"

definition unload :: "heap \<Rightarrow> tiktok_embed \<Rightarrow> (heap \<times> tiktok_embed) completion" where
  "unload h e =
     (if \<not> isLoaded e then Normal (h, e)
      else
        (let h' = (case iframe e of
                     Some r \<Rightarrow> h[r := (h ! r)\<lparr>src := SrcString []\<rparr>]
                   | None \<Rightarrow> h);
             e1 = e\<lparr>iframe := None\<rparr>;
             e2 = e1\<lparr>container := (container e1)\<lparr>children := posterMarkup (title e1) (posterSrc e1)\<rparr>\<rparr>;
             e3 = e2\<lparr>isLoaded := False\<rparr>
         in Normal (h', init e3)))"

definition errorMarkup :: "string \<Rightarrow> string \<Rightarrow> string option \<Rightarrow> node list" where
  "errorMarkup ind1 ind2 u =
     [Text (CHR 0x0A # ind1),
      Element ''p'' [] [] [Text ''Video unavailable''],
      Text (CHR 0x0A # ind1),
      Element ''a'' [(''href'', js_str u), (''target'', ''_blank''), (''rel'', ''noopener'')] []
        [Text (''Watch on TikTok '' @ arrow_glyph)],
      Text (CHR 0x0A # ind2)]"

definition errorMsg :: "string \<Rightarrow> string \<Rightarrow> string option \<Rightarrow> node" where
  "errorMsg ind1 ind2 u = Element ''div'' [(''class'', ''ttk__error'')] [] (errorMarkup ind1 ind2 u)"

definition handleLoadError :: "tiktok_embed \<Rightarrow> tiktok_embed completion" where
  "handleLoadError e =
     (case pressCard (container e) of
        NoPressCard \<Rightarrow> Thrown TypeError e
      | PressCard link \<Rightarrow>
          Normal (e\<lparr>container := (container e)
                      \<lparr>pressCard := PressCard (map_option (\<lambda>d. ''block'') link),
                       children := [errorMsg ''        '' ''      '' (url e)]\<rparr>\<rparr>))"

subsection \<open>The earlier \<open>TikTokEmbed\<close> of the orchestrated application\<close>

text \<open>
  Its constructor and \<open>init\<close> are those above. \<open>load\<close> sets two search parameters and has
  no load listener; \<open>handleLoadError\<close> does not look for a press card; there is no \<open>unload\<close>.
\<close>

definition embedUrl_app :: "string \<Rightarrow> url_obj" where
  "embedUrl_app videoId =
     searchParams_set ''muted'' ''1''
       (searchParams_set ''autoplay'' ''1'' (new_URL (embed_base @ videoId)))"

definition load_app :: "heap \<Rightarrow> tiktok_embed \<Rightarrow> (heap \<times> tiktok_embed) completion" where
  "load_app h e =
     (if isLoaded e then Normal (h, e)
      else (case url e of
              None \<Rightarrow> Thrown TypeError (h, e)
            | Some u \<Rightarrow>
                (let videoId = extractVideoId u in
                 if videoId = [] then Normal (h, e)
                 else
                   (let r = length h;
                        el = createIframe\<lparr>src := SrcUrl (embedUrl_app videoId),
                               frame_title := title e,
                               sandbox := ''allow-scripts allow-same-origin allow-presentation'',
                               referrerPolicy := ''no-referrer-when-downgrade'',
                               attributes := [(''scrolling'', ''no'')],
                               allow := ''fullscreen'',
                               allowFullscreen := True,
                               errorHandler := True\<rparr>
                    in Normal (h @ [el],
                         e\<lparr>iframe := Some r,
                           container := (container e)\<lparr>children := [frameWrapper r]\<rparr>,
                           isLoaded := True\<rparr>)))))"

definition handleLoadError_app :: "tiktok_embed \<Rightarrow> tiktok_embed" where
  "handleLoadError_app e =
     e\<lparr>container := (container e)\<lparr>children := [errorMsg ''      '' ''    '' (url e)]\<rparr>\<rparr>"


text \<open>
  The body of the error listener that \<open>load\<close> installs with \<open>once: true\<close> on iframe \<open>r\<close>:
  the fallback, then the analytics event (skipped when the fallback throws).
\<close>

definition errorListener ::
  "nat \<Rightarrow> heap \<times> tiktok_embed \<Rightarrow> ((heap \<times> tiktok_embed) \<times> string list) completion" where
  "errorListener r s =
     (case s of (h, e) \<Rightarrow>
        if r < length h \<and> errorHandler (h ! r)
        then (let h' = h[r := (h ! r)\<lparr>errorHandler := False\<rparr>]
              in (case handleLoadError e of
                    Normal e' \<Rightarrow> Normal ((h', e'), [''video_load_error''])
                  | Thrown x e' \<Rightarrow> Thrown x ((h', e'), [])))
        else Normal ((h, e), []))"

text \<open>Sequences of calls of the two public methods; a throwing call leaves its state behind.\<close>

datatype method_call = Load | Unload

fun call :: "method_call \<Rightarrow> heap \<times> tiktok_embed \<Rightarrow> heap \<times> tiktok_embed" where
  "call Load (h, e) = state_of (load h e)"
| "call Unload (h, e) = state_of (unload h e)"

fun calls :: "method_call list \<Rightarrow> heap \<times> tiktok_embed \<Rightarrow> heap \<times> tiktok_embed" where
  "calls [] s = s"
| "calls (m # ms) s = calls ms (call m s)"

text \<open>Whether a user can trigger \<open>load\<close>: the poster button is there and has the click listener.\<close>

definition poster_clickable :: "node list \<Rightarrow> bool" where
  "poster_clickable ns =
     (case find_first (has_class ''ttk__poster'') ns of
        Some b \<Rightarrow> ''click'' \<in> set (listeners b)
      | None \<Rightarrow> False)"

subsection \<open>\<open>setupLazyLoading\<close> of the optimised script\<close>

text \<open>
  The page after set-up: one embed per container, the containers the observer watches,
  the pending one-second timers, and the names of the analytics events that \<open>trackEvent\<close>
  was called with. The script runs \<open>setupLazyLoading\<close> once the DOM is ready; its second
  run on a page restored from the back/forward cache, the console output and the sinks
  of \<open>trackEvent\<close> are not part of this model.
\<close>

record lazy_page =
  embeds :: "tiktok_embed list"
  page_frames :: heap
  observedContainers :: "nat set"
  timers :: "nat list"
  tracked :: "string list"

definition setupLazyLoading :: "bool \<Rightarrow> bool \<Rightarrow> container list \<Rightarrow> lazy_page" where
  "setupLazyLoading PREFERS_REDUCED_MOTION SUPPORTS_INTERSECTION_OBSERVER containers =
     (if containers = []
      then \<lparr>embeds = [], page_frames = [], observedContainers = {}, timers = [], tracked = []\<rparr>
      else if PREFERS_REDUCED_MOTION
      then \<lparr>embeds = map TikTokEmbed containers, page_frames = [], observedContainers = {},
             timers = [], tracked = []\<rparr>
      else if SUPPORTS_INTERSECTION_OBSERVER
      then \<lparr>embeds = map TikTokEmbed containers, page_frames = [],
             observedContainers = {0..<length containers}, timers = [], tracked = []\<rparr>
      else \<lparr>embeds = map TikTokEmbed containers, page_frames = [], observedContainers = {},
             timers = [0..<length containers], tracked = []\<rparr>)"

text \<open>
  What can happen afterwards: the observer reports a container, a timer fires, the user
  clicks a poster, or a script calls \<open>unload\<close> on an embed. An exception thrown inside a
  callback ends that callback only.
\<close>

datatype lazy_event = Intersection nat bool | Timeout nat | PosterClick nat | UnloadCall nat

definition with_embed :: "nat \<Rightarrow> heap \<times> tiktok_embed \<Rightarrow> lazy_page \<Rightarrow> lazy_page" where
  "with_embed i s p = p\<lparr>page_frames := fst s, embeds := (embeds p)[i := snd s]\<rparr>"

fun lazy_step :: "lazy_event \<Rightarrow> lazy_page \<Rightarrow> lazy_page" where
  "lazy_step (Intersection i isIntersecting) p =
     (if i \<in> observedContainers p \<and> i < length (embeds p)
      then (if isIntersecting
            then (if \<not> isLoaded (embeds p ! i)
                  then with_embed i (state_of (load (page_frames p) (embeds p ! i))) p
                  else p)
            else p)
      else p)"
| "lazy_step (Timeout i) p =
     (if i \<in> set (timers p) \<and> i < length (embeds p)
      then with_embed i (state_of (load (page_frames p) (embeds p ! i)))
             (p\<lparr>timers := remove1 i (timers p)\<rparr>)
      else p)"
| "lazy_step (PosterClick i) p =
     (if i < length (embeds p) \<and> poster_clickable (children (container (embeds p ! i)))
      then (case load (page_frames p) (embeds p ! i) of
              Normal s \<Rightarrow> (with_embed i s p)\<lparr>tracked := tracked p @ [''video_play_clicked'']\<rparr>
            | Thrown x s \<Rightarrow> with_embed i s p)
      else p)"
| "lazy_step (UnloadCall i) p =
     (if i < length (embeds p)
      then with_embed i (state_of (unload (page_frames p) (embeds p ! i))) p
      else p)"

fun lazy_run :: "lazy_event list \<Rightarrow> lazy_page \<Rightarrow> lazy_page" where
  "lazy_run [] p = p"
| "lazy_run (ev # evs) p = lazy_run evs (lazy_step ev p)"

fun is_user_event :: "lazy_event \<Rightarrow> bool" where
  "is_user_event (PosterClick i) = True"
| "is_user_event ev = False"

fun is_timeout :: "lazy_event \<Rightarrow> bool" where
  "is_timeout (Timeout i) = True"
| "is_timeout ev = False"

subsection \<open>\<open>setupTikTokEmbeds\<close> of the orchestrated application\<close>

text \<open>
  A container is bare until a \<open>TikTokEmbed\<close> is constructed on it; \<open>tagged\<close> are the
  containers whose \<open>__tiktokEmbed\<close> property has been set.
\<close>

datatype slot = Bare container | Wrapped tiktok_embed

record orch_page =
  slots :: "slot list"
  orch_frames :: heap
  observedSlots :: "nat set"
  tagged :: "nat set"

definition setupTikTokEmbeds :: "bool \<Rightarrow> bool \<Rightarrow> container list \<Rightarrow> orch_page" where
  "setupTikTokEmbeds PREFERS_REDUCED_MOTION SUPPORTS_INTERSECTION_OBSERVER containers =
     (if containers = []
      then \<lparr>slots = [], orch_frames = [], observedSlots = {}, tagged = {}\<rparr>
      else if PREFERS_REDUCED_MOTION \<or> \<not> SUPPORTS_INTERSECTION_OBSERVER
      then \<lparr>slots = map (\<lambda>c. Wrapped (TikTokEmbed c)) containers, orch_frames = [],
             observedSlots = {}, tagged = {}\<rparr>
      else \<lparr>slots = map Bare containers, orch_frames = [],
             observedSlots = {0..<length containers}, tagged = {}\<rparr>)"

fun slot_container :: "slot \<Rightarrow> container" where
  "slot_container (Bare c) = c"
| "slot_container (Wrapped e) = container e"

fun slot_loaded :: "slot \<Rightarrow> bool" where
  "slot_loaded (Bare c) = False"
| "slot_loaded (Wrapped e) = isLoaded e"

datatype orch_event = Visibility nat bool | ButtonClick nat

fun orch_step :: "orch_event \<Rightarrow> orch_page \<Rightarrow> orch_page" where
  "orch_step (Visibility i isIntersecting) p =
     (if i \<in> observedSlots p \<and> i < length (slots p)
      then (if isIntersecting \<and> i \<notin> tagged p
            then p\<lparr>slots := (slots p)[i := Wrapped (TikTokEmbed (slot_container (slots p ! i)))],
                   tagged := insert i (tagged p),
                   observedSlots := observedSlots p - {i}\<rparr>
            else p)
      else p)"
| "orch_step (ButtonClick i) p =
     (if i < length (slots p)
      then (case slots p ! i of
              Bare c \<Rightarrow> p
            | Wrapped e \<Rightarrow>
                if poster_clickable (children (container e))
                then (case state_of (load_app (orch_frames p) e) of
                        (h, e') \<Rightarrow> p\<lparr>orch_frames := h, slots := (slots p)[i := Wrapped e']\<rparr>)
                else p)
      else p)"

fun orch_run :: "orch_event list \<Rightarrow> orch_page \<Rightarrow> orch_page" where
  "orch_run [] p = p"
| "orch_run (ev # evs) p = orch_run evs (orch_step ev p)"

fun is_click :: "orch_event \<Rightarrow> bool" where
  "is_click (ButtonClick i) = True"
| "is_click ev = False"


subsection \<open>The inline script on \<open>#tiktok-card\<close>\<close>

definition allow_features :: string where
  "allow_features =
     ''accelerometer; autoplay; clipboard-write; encrypted-media; gyroscope; picture-in-picture; web-share''"

text \<open>
  \<open>hydrate\<close> marks the element, creates the iframe and installs its \<open>onerror\<close> handler;
  the closure ends there, so the iframe is not inserted into the element.
\<close>

definition hydrate :: "string \<Rightarrow> heap \<times> container \<Rightarrow> heap \<times> container" where
  "hydrate videoId s =
     (case s of (h, el) \<Rightarrow>
        if hydrated el = Some ''1'' then (h, el)
        else (h @ [createIframe\<lparr>src := SrcString (embed_base @ videoId),
                     allowFullscreen := True,
                     allow := allow_features,
                     referrerPolicy := ''origin'',
                     loading := ''lazy'',
                     frame_title := ''TikTok video'',
                     errorHandler := True\<rparr>],
              el\<lparr>hydrated := Some ''1''\<rparr>))"

definition hydrate_onerror :: "container \<Rightarrow> container" where
  "hydrate_onerror el =
     el\<lparr>children := [Element ''p'' [(''style'', ''padding: 20px; text-align: center;'')] []
                        [Text ''Video unavailable'']]\<rparr>"

record inline_script =
  el :: container
  inline_frames :: heap
  videoId :: string
  observing :: bool

text \<open>The script body; \<open>None\<close> when it returns before defining anything.\<close>

definition inline_start :: "bool \<Rightarrow> container option \<Rightarrow> inline_script option" where
  "inline_start supportsIO found =
     (case found of
        None \<Rightarrow> None
      | Some c \<Rightarrow>
          (case match_video (or_else (tiktokUrl c) []) of
             None \<Rightarrow> None
           | Some v \<Rightarrow>
               if \<not> supportsIO
               then (case hydrate v ([], c) of
                       (h, c') \<Rightarrow> Some \<lparr>el = c', inline_frames = h, videoId = v, observing = False\<rparr>)
               else Some \<lparr>el = c, inline_frames = [], videoId = v, observing = True\<rparr>))"

text \<open>The observer callback on a batch of entries for the element.\<close>

fun inline_callback :: "bool \<Rightarrow> bool list \<Rightarrow> inline_script \<Rightarrow> inline_script" where
  "inline_callback prefersReduced [] st = st"
| "inline_callback prefersReduced (isIntersecting # es) st =
     (if isIntersecting \<or> prefersReduced
      then (case hydrate (videoId st) (inline_frames st, el st) of
              (h, c) \<Rightarrow> st\<lparr>el := c, inline_frames := h, observing := False\<rparr>)
      else inline_callback prefersReduced es st)"

definition inline_deliver :: "bool \<Rightarrow> bool list \<Rightarrow> inline_script \<Rightarrow> inline_script" where
  "inline_deliver prefersReduced es st =
     (if observing st then inline_callback prefersReduced es st else st)"

subsection \<open>\<open>buildIframe\<close>, \<open>hydrateTikTok\<close> and \<open>initTikTok\<close>\<close>

definition buildIframe :: "string \<Rightarrow> iframe_el" where
  "buildIframe vid =
     createIframe\<lparr>src := SrcString (''https://www.tiktok.com/embed/v2/video/'' @ vid @
                                       ''?lang=en-US&autoplay=1&controls=1&muted=1''),
       loading := ''lazy'',
       frame_title := ''TikTok video'',
       attributes := [(''referrerpolicy'', ''strict-origin-when-cross-origin''),
                      (''allow'', allow_features),
                      (''allowfullscreen'', [])]\<rparr>"

text \<open>
  The module state: the cards, the page-wide set of hydrated cards, the iframes, the
  iframes watched by a play/pause observer, the cards watched by the page observer, and
  the two facts about the environment that the code asks for.
\<close>

record app_state =
  cards :: "container list"
  hydratedTikToks :: "nat set"
  app_frames :: heap
  playObserved :: "nat list"
  observedCards :: "nat set"
  prefersReduced :: bool
  hasIntersectionObserver :: bool

definition fallbackMarkup :: "string \<Rightarrow> node list" where
  "fallbackMarkup u =
     [Element ''p'' [] [] [Text (''Couldn'' @ [CHR 0xE2, CHR 0x80, CHR 0x99] @ ''t load video.'')],
      Element ''a'' [(''href'', u), (''target'', ''_blank''), (''rel'', ''noopener'')] []
        [Text ''Open on TikTok'']]"

definition set_card :: "nat \<Rightarrow> node list \<Rightarrow> app_state \<Rightarrow> app_state" where
  "set_card i ns s = s\<lparr>cards := (cards s)[i := (cards s ! i)\<lparr>children := ns\<rparr>]\<rparr>"

text \<open>
  \<open>hydrateTikTok\<close> on card \<open>i\<close>. A property set on the null result of \<open>querySelector\<close>
  throws, after the card has been added to the set. The play/pause observer is
  registered on the new iframe; what its callback later does to \<open>iframe.src\<close> is left out.
\<close>

definition hydrateTikTok :: "nat \<Rightarrow> app_state \<Rightarrow> app_state completion" where
  "hydrateTikTok i s =
     (if i \<in> hydratedTikToks s \<or> \<not> i < length (cards s) then Normal s
      else
        (let s1 = s\<lparr>hydratedTikToks := insert i (hydratedTikToks s)\<rparr>;
             c = cards s ! i;
             u = or_else (tiktokUrl c) [];
             vid = match_video u
         in case update_first (has_class ''ttk__poster-img'')
                   (setAttribute ''src'' (or_else (poster c) [])) (children c) of
              None \<Rightarrow> Thrown TypeError s1
            | Some ns1 \<Rightarrow>
                (case vid of
                   None \<Rightarrow>
                     (case update_first (has_class ''ttk__error'')
                             (\<lambda>n. set_innerHTML (fallbackMarkup u) (removeAttribute ''hidden'' n)) ns1 of
                        None \<Rightarrow> Thrown TypeError (set_card i ns1 s1)
                      | Some ns2 \<Rightarrow> Normal (set_card i ns2 s1))
                 | Some v \<Rightarrow>
                     (case update_first (has_class ''ttk__poster'') (setAttribute ''hidden'' []) ns1 of
                        None \<Rightarrow> Thrown TypeError (set_card i ns1 s1)
                      | Some ns2 \<Rightarrow>
                          (let r = length (app_frames s1)
                           in case update_first (has_class ''ttk__frame'')
                                     (\<lambda>n. appendChild (Iframe r) (removeAttribute ''hidden'' n)) ns2 of
                                None \<Rightarrow> Thrown TypeError (set_card i ns2 s1)
                              | Some ns3 \<Rightarrow>
                                  (let s2 = (set_card i ns3 s1)\<lparr>app_frames := app_frames s1 @ [buildIframe v]\<rparr>
                                   in if hasIntersectionObserver s2
                                      then Normal (s2\<lparr>playObserved := playObserved s2 @ [r]\<rparr>)
                                      else Thrown ReferenceError s2))))))"

fun add_click_listeners :: "container list \<Rightarrow> container list completion" where
  "add_click_listeners [] = Normal []"
| "add_click_listeners (c # cs) =
     (case update_first (has_class ''ttk__poster'') (addEventListener ''click'') (children c) of
        None \<Rightarrow> Thrown TypeError (c # cs)
      | Some ns \<Rightarrow>
          (case add_click_listeners cs of
             Normal cs' \<Rightarrow> Normal (c\<lparr>children := ns\<rparr> # cs')
           | Thrown x cs' \<Rightarrow> Thrown x (c\<lparr>children := ns\<rparr> # cs')))"

definition initTikTok :: "bool \<Rightarrow> bool \<Rightarrow> container list \<Rightarrow> app_state completion" where
  "initTikTok reduced supportsIO cs =
     (let s0 = \<lparr>cards = cs, hydratedTikToks = {}, app_frames = [], playObserved = [],
                observedCards = {}, prefersReduced = reduced, hasIntersectionObserver = supportsIO\<rparr>
      in case add_click_listeners cs of
           Thrown x cs' \<Rightarrow> Thrown x (s0\<lparr>cards := cs'\<rparr>)
         | Normal cs' \<Rightarrow>
             if supportsIO
             then Normal (s0\<lparr>cards := cs', observedCards := {0..<length cs'}\<rparr>)
             else Thrown ReferenceError (s0\<lparr>cards := cs'\<rparr>))"

text \<open>A click on the poster button of a card, or a report of the page observer.\<close>

datatype app_event = Click nat | Entry nat bool

fun app_step :: "app_event \<Rightarrow> app_state \<Rightarrow> app_state" where
  "app_step (Click i) s =
     (if i < length (cards s) \<and> poster_clickable (children (cards s ! i))
      then state_of (hydrateTikTok i s)
      else s)"
| "app_step (Entry i isIntersecting) s =
     (if i \<in> observedCards s \<and> isIntersecting \<and> \<not> prefersReduced s
      then state_of (hydrateTikTok i s)
      else s)"

fun app_run :: "app_event list \<Rightarrow> app_state \<Rightarrow> app_state" where
  "app_run [] s = s"
| "app_run (ev # evs) s = app_run evs (app_step ev s)"

subsection \<open>Invariants of an embed and example containers\<close>

text \<open>
  The embed and the heap agree: a loaded embed refers to an existing iframe and its URL
  has a non-empty last segment; an embed that is not loaded refers to none.
\<close>

definition linked :: "heap \<times> tiktok_embed \<Rightarrow> bool" where
  "linked s =
     (case s of (h, e) \<Rightarrow>
        if isLoaded e
        then (case iframe e of Some r \<Rightarrow> r < length h | None \<Rightarrow> False) \<and>
             (case url e of Some u \<Rightarrow> extractVideoId u \<noteq> [] | None \<Rightarrow> False)
        else iframe e = None)"

text \<open>
  The container of a loaded embed holds exactly its iframe; the container of an embed that
  is not loaded holds no iframe.
\<close>

definition embed_count_ok :: "heap \<times> tiktok_embed \<Rightarrow> bool" where
  "embed_count_ok s =
     (case s of (h, e) \<Rightarrow>
        if isLoaded e
        then (case iframe e of
                Some r \<Rightarrow> iframes_of (children (container e)) = [r]
              | None \<Rightarrow> False)
        else iframe e = None \<and> iframes_of (children (container e)) = [])"

text \<open>A poster as a page would carry it, and a container around it with a given URL.\<close>

definition page_poster :: "node list" where
  "page_poster =
     [Element ''button'' [(''class'', ''ttk__poster''), (''type'', ''button'')] []
        [Element ''img'' [(''class'', ''ttk__poster-img''), (''alt'', [])] [] [],
         Element ''span'' [(''class'', ''ttk__play'')] [] [Text play_glyph]]]"

definition example_container :: "string \<Rightarrow> container" where
  "example_container u =
     \<lparr>tiktokUrl = Some u, dataTitle = None, poster = Some ''p.jpg'', hydrated = None,
      children = page_poster, pressCard = PressCard (Some ''none'')\<rparr>"

text \<open>The same container on a page where no \<open>.press-card\<close> encloses it.\<close>

definition orphan_container :: "string \<Rightarrow> container" where
  "orphan_container u = (example_container u)\<lparr>pressCard := NoPressCard\<rparr>"

text \<open>That container with its embed after one call of \<open>load\<close>.\<close>

definition orphan_example :: "heap \<times> tiktok_embed" where
  "orphan_example = calls [Load] ([], TikTokEmbed (orphan_container ''https://example.com/video/123456''))"


definition example_url :: string where
  "example_url = ''https://example.com/video/123456''"

text \<open>The example container after one call of \<open>load\<close>.\<close>

definition hydrated_example :: "heap \<times> tiktok_embed" where
  "hydrated_example = calls [Load] ([], TikTokEmbed (example_container example_url))"

text \<open>Two URLs that contain the numeric identifier but do not end in it.\<close>

definition slash_url :: string where
  "slash_url = ''https://www.tiktok.com/@user/video/123456/''"

definition query_url :: string where
  "query_url = ''https://www.tiktok.com/@user/video/123456/?lang=en''"

text \<open>Reading an element: its attributes and its children.\<close>

fun tag_of :: "node \<Rightarrow> string" where
  "tag_of (Element t a l cs) = t"
| "tag_of (Text s) = []"
| "tag_of (Iframe r) = []"

fun attrs_of :: "node \<Rightarrow> (string \<times> string) list" where
  "attrs_of (Element t a l cs) = a"
| "attrs_of (Text s) = []"
| "attrs_of (Iframe r) = []"

fun child_nodes :: "node \<Rightarrow> node list" where
  "child_nodes (Element t a l cs) = cs"
| "child_nodes (Text s) = []"
| "child_nodes (Iframe r) = []"

text \<open>A card as \<open>hydrateTikTok\<close> expects it: poster button and image, hidden frame and error box.\<close>

definition card_markup :: "node list" where
  "card_markup =
     [Element ''button'' [(''class'', ''ttk__poster''), (''type'', ''button'')] []
        [Element ''img'' [(''class'', ''ttk__poster-img''), (''alt'', [])] [] []],
      Element ''div'' [(''class'', ''ttk__frame''), (''hidden'', [])] [] [],
      Element ''div'' [(''class'', ''ttk__error''), (''hidden'', [])] [] []]"

definition example_card :: "string \<Rightarrow> container" where
  "example_card u =
     \<lparr>tiktokUrl = Some u, dataTitle = None, poster = Some ''p.jpg'', hydrated = None,
      children = card_markup, pressCard = NoPressCard\<rparr>"

text \<open>The module state that \<open>initTikTok\<close> leaves for one card on a page with an observer.\<close>

definition example_app :: "string \<Rightarrow> app_state" where
  "example_app u = state_of (initTikTok False True [example_card u])"

text \<open>The path segment of a URL string that follows a given prefix.\<close>

definition path_segment_after :: "string \<Rightarrow> string \<Rightarrow> string" where
  "path_segment_after base s =
     takeWhile (\<lambda>c. c \<noteq> CHR ''/'' \<and> c \<noteq> CHR ''?'') (drop (length base) s)"

text \<open>The orchestrated application set up on one container, with an observer.\<close>

definition observed_page :: orch_page where
  "observed_page = setupTikTokEmbeds False True [example_container example_url]"

section \<open>Properties\<close>

subsection \<open>Splitting and identifier extraction\<close>

lemma class_tokens_of_names [simp]:
  "class_tokens ''ttk__poster'' = [''ttk__poster'']"
  "class_tokens ''ttk__poster-img'' = [''ttk__poster-img'']"
  "class_tokens ''ttk__play'' = [''ttk__play'']"
  "class_tokens ''ttk__frame'' = [''ttk__frame'']"
  "class_tokens ''ttk__error'' = [''ttk__error'']"
  by (simp_all add: class_tokens_def is_ascii_whitespace_def)

lemma attr_safe_examples: "attr_safe ''not-a-url''" "attr_safe example_url" "attr_safe ''TikTok video''"
  "attr_safe ''p.jpg''"
  by (simp_all add: attr_safe_def example_url_def)

lemma path_chars_facts:
  "CHR ''/'' \<notin> set path_chars" "CHR ''?'' \<notin> set path_chars"
  "set ''0123456789'' \<subseteq> set path_chars"
  by (simp_all add: path_chars_def)

lemma path_safe_no_sep: "path_safe s \<Longrightarrow> CHR ''/'' \<notin> set s \<and> CHR ''?'' \<notin> set s"
  using path_chars_facts(1,2) unfolding path_safe_def list_all_iff by blast

lemma digits_path_safe: "d \<noteq> [] \<Longrightarrow> list_all is_digit d \<Longrightarrow> path_safe d"
  using path_chars_facts(3) unfolding path_safe_def is_digit_def list_all_iff by blast

lemma segment_after_base:
  "path_safe s \<Longrightarrow>
   path_segment_after ''https://www.tiktok.com/embed/v2/''
     (''https://www.tiktok.com/embed/v2/'' @ s @ CHR ''?'' # q) = s"
proof -
  assume "path_safe s"
  then have "\<forall>c\<in>set s. c \<noteq> CHR ''/'' \<and> c \<noteq> CHR ''?''"
    using path_safe_no_sep [of s] by auto
  then have "takeWhile (\<lambda>c. c \<noteq> CHR ''/'' \<and> c \<noteq> CHR ''?'') (s @ CHR ''?'' # q) = s"
    by (simp add: takeWhile_tail)
  then show ?thesis by (simp add: path_segment_after_def)
qed

lemma path_safe_names:
  "path_safe ''autoplay''" "path_safe ''muted''" "path_safe ''controls''" "path_safe ''rel''"
  "path_safe ''loop''" "path_safe ''0''" "path_safe ''1''"
  by (simp_all add: path_safe_def path_chars_def)

lemma embedUrl_toString:
  "path_safe v \<Longrightarrow>
   url_toString (embedUrl v) =
     Some (''https://www.tiktok.com/embed/v2/'' @ v @ ''?autoplay=1&muted=1&controls=1&rel=0&loop=0'')"
  by (simp add: url_toString_def embedUrl_def searchParams_set_def new_URL_def embed_base_def
       path_safe_names)

lemma embedUrl_app_toString:
  "path_safe v \<Longrightarrow>
   url_toString (embedUrl_app v) =
     Some (''https://www.tiktok.com/embed/v2/'' @ v @ ''?autoplay=1&muted=1'')"
  by (simp add: url_toString_def embedUrl_app_def searchParams_set_def new_URL_def embed_base_def
       path_safe_names)

lemma path_safe_not_a_url: "path_safe ''not-a-url''" "path_safe ''123456''"
  by (simp_all add: path_safe_def path_chars_def)

lemma split_on_ne: "split_on c s \<noteq> []"
  by (induction s) (auto split: list.splits)

lemma split_on_append: "split_on c (p @ c # d) = split_on c p @ split_on c d"
proof (induction p)
  case Nil
  show ?case by simp
next
  case (Cons x xs)
  obtain y ys where "split_on c xs = y # ys"
    using split_on_ne [of c xs] by (cases "split_on c xs") auto
  with Cons show ?case by simp
qed

lemma split_on_absent: "c \<notin> set s \<Longrightarrow> split_on c s = [s]"
  by (induction s) auto

lemma extractVideoId_tail:
  assumes "CHR ''/'' \<notin> set d" "CHR ''?'' \<notin> set d"
  shows "extractVideoId (p @ CHR ''/'' # d) = d"
  using assms by (simp add: extractVideoId_def split_on_append split_on_absent)

lemma extractVideoId_tail_query:
  assumes "CHR ''/'' \<notin> set d" "CHR ''?'' \<notin> set d" "CHR ''/'' \<notin> set q"
  shows "extractVideoId (p @ CHR ''/'' # d @ CHR ''?'' # q) = d"
proof -
  have "split_on CHR ''/'' (d @ CHR ''?'' # q) = [d @ CHR ''?'' # q]"
    using assms by (simp add: split_on_absent)
  moreover have "split_on CHR ''?'' (d @ CHR ''?'' # q) = split_on CHR ''?'' d @ split_on CHR ''?'' q"
    by (rule split_on_append)
  ultimately show ?thesis
    using assms by (simp add: extractVideoId_def split_on_append split_on_absent)
qed

lemma digits_no_sep: "\<forall>c\<in>set d. is_digit c \<Longrightarrow> CHR ''/'' \<notin> set d \<and> CHR ''?'' \<notin> set d"
  by (auto simp: is_digit_def)

lemma iframes_in_setAttribute [simp]: "iframes_in (setAttribute k v n) = iframes_in n"
  by (cases n) auto
lemma iframes_in_addEventListener [simp]: "iframes_in (addEventListener ev n) = iframes_in n"
  by (cases n) auto

lemma update_keeps_iframes:
  "(\<And>n. iframes_in (f n) = iframes_in n) \<Longrightarrow> update_node p f n = Some n' \<Longrightarrow> iframes_in n' = iframes_in n"
  "(\<And>n. iframes_in (f n) = iframes_in n) \<Longrightarrow> update_first p f ns = Some ns' \<Longrightarrow> iframes_of ns' = iframes_of ns"
proof (induction p f n and p f ns arbitrary: n' and ns' rule: update_node_update_first.induct)
  case (1 p f t a l cs)
  then show ?case
    by (auto simp: iframes_of_def split: if_splits option.splits)
next
  case (5 p f n ns)
  then show ?case
    by (auto simp: iframes_of_def split: option.splits)
qed auto

lemma iframes_of_frameWrapper [simp]: "iframes_of [frameWrapper r] = [r]"
  by (simp add: iframes_of_def frameWrapper_def)

lemma update_or_keep_iframes:
  "(\<And>n. iframes_in (f n) = iframes_in n) \<Longrightarrow>
   iframes_of (case update_first p f ns of Some ns' \<Rightarrow> ns' | None \<Rightarrow> ns) = iframes_of ns"
  by (cases "update_first p f ns") (auto intro: update_keeps_iframes(2))

lemma init_iframes: "iframes_of (children (container (init e))) = iframes_of (children (container e))"
  by (simp add: init_def Let_def update_or_keep_iframes)

lemma init_fields [simp]:
  "isLoaded (init e) = isLoaded e" "iframe (init e) = iframe e" "url (init e) = url e"
  "title (init e) = title e" "posterSrc (init e) = posterSrc e"
  by (simp_all add: init_def Let_def)

lemma iframes_posterMarkup [simp]: "iframes_of (posterMarkup t p) = []"
  by (simp add: posterMarkup_def iframes_of_def)

lemma load_idem: "isLoaded e \<Longrightarrow> load h e = Normal (h, e)"
  by (simp add: load_def)

lemma load_fresh:
  assumes "\<not> isLoaded e" "url e = Some u" "extractVideoId u \<noteq> []"
  shows "\<exists>el e'. load h e = Normal (h @ [el], e') \<and> isLoaded e' \<and> iframe e' = Some (length h) \<and>
           children (container e') = [frameWrapper (length h)] \<and> url e' = url e \<and>
           src el = SrcUrl (embedUrl (extractVideoId u))"
  using assms by (simp add: load_def Let_def)

lemma linked_call: "linked s \<Longrightarrow> linked (call m s)"
  by (cases s; cases m)
     (auto simp: linked_def load_def unload_def Let_def split: option.splits if_splits)

lemma count_call: "embed_count_ok s \<Longrightarrow> embed_count_ok (call m s)"
  by (cases s; cases m)
     (auto simp: embed_count_ok_def load_def unload_def Let_def init_iframes
        split: option.splits if_splits)

lemma linked_calls: "linked s \<Longrightarrow> linked (calls ms s)"
  by (induction ms arbitrary: s) (auto simp: linked_call simp del: call.simps)

lemma count_calls: "embed_count_ok s \<Longrightarrow> embed_count_ok (calls ms s)"
  by (induction ms arbitrary: s) (auto simp: count_call simp del: call.simps)

lemma linked_new: "linked (h, TikTokEmbed c)"
  by (simp add: linked_def TikTokEmbed_def)

lemma count_new: "iframes_of (children c) = [] \<Longrightarrow> embed_count_ok (h, TikTokEmbed c)"
  by (simp add: embed_count_ok_def TikTokEmbed_def init_iframes)

lemma load_app_idem: "isLoaded e \<Longrightarrow> load_app h e = Normal (h, e)"
  by (simp add: load_app_def)

lemma load_unchanged_or_loaded:
  "state_of (load h e) = (h, e) \<or> isLoaded (snd (state_of (load h e)))"
  by (auto simp: load_def Let_def split: option.splits)

lemma hydrated_example_loaded: "isLoaded (snd hydrated_example)"
  by (simp add: hydrated_example_def example_url_def example_container_def page_poster_def
       TikTokEmbed_def init_def load_def extractVideoId_def Let_def)

subsection \<open>Idempotence of hydration\<close>

text \<open>
  Claim C3. \<open>load\<close> is idempotent: on an embed that is already loaded, a call of \<open>load\<close>
  (in either version of the class) returns with the heap of iframes, the embed and its
  container unchanged, so no further embed element is produced; the inline \<open>hydrate\<close> is
  a no-op on an element already marked; and from any state, calling \<open>load\<close> twice
  leaves the state that calling it once leaves.
\<close>

theorem load_twice_is_noop:
  "(isLoaded e \<longrightarrow> load h e = Normal (h, e) \<and> load_app h e = Normal (h, e)) \<and>
   (hydrated c = Some ''1'' \<longrightarrow> hydrate v (h, c) = (h, c)) \<and>
   call Load (call Load s) = call Load s"
proof -
  have "call Load (call Load s) = call Load s"
  proof (cases s)
    case (Pair h0 e0)
    obtain h1 e1 where s1: "state_of (load h0 e0) = (h1, e1)"
      by (cases "state_of (load h0 e0)") auto
    show ?thesis
    proof (cases "isLoaded e1")
      case True
      then show ?thesis using Pair s1 by (simp add: load_idem)
    next
      case False
      then have "state_of (load h0 e0) = (h0, e0)"
        using load_unchanged_or_loaded [of h0 e0] s1 by auto
      then show ?thesis using Pair by simp
    qed
  qed
  then show ?thesis
    by (simp add: load_idem load_app_idem hydrate_def)
qed

theorem load_twice_is_noop_witness:
  "isLoaded (snd hydrated_example) \<and>
   load (fst hydrated_example) (snd hydrated_example) = Normal hydrated_example \<and>
   hydrated ((example_container example_url)\<lparr>hydrated := Some ''1''\<rparr>) = Some ''1'' \<and>
   hydrate ''123456'' (fst hydrated_example, (example_container example_url)\<lparr>hydrated := Some ''1''\<rparr>) =
     (fst hydrated_example, (example_container example_url)\<lparr>hydrated := Some ''1''\<rparr>)"
proof -
  have h1: "isLoaded (snd hydrated_example)" by (rule hydrated_example_loaded)
  have h2: "hydrated ((example_container example_url)\<lparr>hydrated := Some ''1''\<rparr>) = Some ''1''" by simp
  show ?thesis
    using h1 h2
      load_twice_is_noop [where e = "snd hydrated_example" and h = "fst hydrated_example"
        and c = "(example_container example_url)\<lparr>hydrated := Some ''1''\<rparr>" and v = "''123456''"]
    by simp
qed

subsection \<open>Hydration by \<open>load\<close>\<close>

lemma load_app_fresh:
  assumes "\<not> isLoaded e" "url e = Some u" "extractVideoId u \<noteq> []"
  shows "\<exists>el e'. load_app h e = Normal (h @ [el], e') \<and> isLoaded e' \<and> iframe e' = Some (length h) \<and>
           children (container e') = [frameWrapper (length h)] \<and> url e' = url e \<and>
           src el = SrcUrl (embedUrl_app (extractVideoId u))"
  using assms by (simp add: load_app_def Let_def)

lemma extractVideoId_no_query:
  "CHR ''?'' \<notin> set (last (split_on CHR ''/'' u)) \<Longrightarrow> extractVideoId u = last (split_on CHR ''/'' u)"
  by (simp add: extractVideoId_def split_on_absent)

lemma load_empty_id:
  "url e = Some u \<Longrightarrow> extractVideoId u = [] \<Longrightarrow> load h e = Normal (h, e) \<and> load_app h e = Normal (h, e)"
  by (simp add: load_def load_app_def)

subsection \<open>Unloading and loading again\<close>











subsection \<open>What \<open>load\<close> takes as the identifier\<close>

text \<open>
  Claim C9, as the claim states it, fails: the last segment of a URL can be non-empty
  and consist of a query string only; the identifier is then empty and neither version
  of \<open>load\<close> hydrates.
\<close>

theorem load_query_only_segment_counterexample:
  "last (split_on CHR ''/'' query_url) = ''?lang=en'' \<and>
   \<not> isLoaded (snd (state_of (load [] (TikTokEmbed (example_container query_url))))) \<and>
   \<not> isLoaded (snd (state_of (load_app [] (TikTokEmbed (example_container query_url)))))"
  by (simp add: query_url_def example_container_def page_poster_def
       TikTokEmbed_def init_def load_def load_app_def extractVideoId_def Let_def)

text \<open>
  Claim C9, amended. In both versions of the class, \<open>load\<close> takes as the identifier the
  last \<open>/\<close>-separated segment of the URL cut at its first \<open>?\<close>. Whenever that is
  non-empty, \<open>load\<close> on an embed that is not loaded leaves it loaded with a new iframe,
  the only one in its container, whose URL object was constructed from
  \<open>https://www.tiktok.com/embed/v2/\<close> followed by that identifier. Where the identifier
  consists of letters, digits, \<open>-\<close> and \<open>_\<close> only, as \<open>not-a-url\<close> does, the URL of the
  iframe is that string followed by \<open>?autoplay=1&muted=1&controls=1&rel=0&loop=0\<close> (by
  \<open>?autoplay=1&muted=1\<close> in the earlier version); what the URL parser makes of other
  identifiers is left open. When the identifier is empty, \<open>load\<close> returns with nothing
  changed. For a last segment without \<open>?\<close> the identifier is the whole segment.
\<close>

theorem load_accepts_last_segment:
  "(\<not> isLoaded e \<and> url e = Some u \<and> extractVideoId u \<noteq> [] \<longrightarrow>
      (\<exists>el e'. load h e = Normal (h @ [el], e') \<and> isLoaded e' \<and> iframe e' = Some (length h) \<and>
         iframes_of (children (container e')) = [length h] \<and>
         (\<exists>ps. src el = SrcUrl \<lparr>constructed_from = ''https://www.tiktok.com/embed/v2/'' @ extractVideoId u,
                                 searchParams = ps\<rparr>) \<and>
         (path_safe (extractVideoId u) \<longrightarrow>
            src_string (src el) =
              Some (''https://www.tiktok.com/embed/v2/'' @ extractVideoId u @
                    ''?autoplay=1&muted=1&controls=1&rel=0&loop=0''))) \<and>
      (\<exists>el e'. load_app h e = Normal (h @ [el], e') \<and> isLoaded e' \<and> iframe e' = Some (length h) \<and>
         iframes_of (children (container e')) = [length h] \<and>
         (\<exists>ps. src el = SrcUrl \<lparr>constructed_from = ''https://www.tiktok.com/embed/v2/'' @ extractVideoId u,
                                 searchParams = ps\<rparr>) \<and>
         (path_safe (extractVideoId u) \<longrightarrow>
            src_string (src el) =
              Some (''https://www.tiktok.com/embed/v2/'' @ extractVideoId u @ ''?autoplay=1&muted=1'')))) \<and>
   (url e = Some u \<and> extractVideoId u = [] \<longrightarrow> load h e = Normal (h, e) \<and> load_app h e = Normal (h, e)) \<and>
   (CHR ''?'' \<notin> set (last (split_on CHR ''/'' w)) \<longrightarrow> extractVideoId w = last (split_on CHR ''/'' w)) \<and>
   extractVideoId ''not-a-url'' = ''not-a-url'' \<and> path_safe ''not-a-url''"
proof -
  have a: "\<exists>el e'. load h e = Normal (h @ [el], e') \<and> isLoaded e' \<and> iframe e' = Some (length h) \<and>
         iframes_of (children (container e')) = [length h] \<and>
         (\<exists>ps. src el = SrcUrl \<lparr>constructed_from = ''https://www.tiktok.com/embed/v2/'' @ extractVideoId u,
                                 searchParams = ps\<rparr>) \<and>
         (path_safe (extractVideoId u) \<longrightarrow>
            src_string (src el) =
              Some (''https://www.tiktok.com/embed/v2/'' @ extractVideoId u @
                    ''?autoplay=1&muted=1&controls=1&rel=0&loop=0''))"
    if asm: "\<not> isLoaded e" "url e = Some u" "extractVideoId u \<noteq> []"
  proof -
    obtain el e' where r: "load h e = Normal (h @ [el], e')" "isLoaded e'" "iframe e' = Some (length h)"
      "children (container e') = [frameWrapper (length h)]"
      "src el = SrcUrl (embedUrl (extractVideoId u))"
      using load_fresh [OF asm, of h] by blast
    have 1: "\<exists>ps. src el = SrcUrl \<lparr>constructed_from = ''https://www.tiktok.com/embed/v2/'' @ extractVideoId u,
                                 searchParams = ps\<rparr>"
      using r(5) by (simp add: embedUrl_def searchParams_set_def new_URL_def embed_base_def)
    have 2: "path_safe (extractVideoId u) \<longrightarrow>
            src_string (src el) =
              Some (''https://www.tiktok.com/embed/v2/'' @ extractVideoId u @
                    ''?autoplay=1&muted=1&controls=1&rel=0&loop=0'')"
      using r(5) by (simp add: embedUrl_toString)
    have 3: "iframes_of (children (container e')) = [length h]"
      using r(4) by simp
    from r(1,2,3) 1 2 3 show ?thesis by blast
  qed
  have b: "\<exists>el e'. load_app h e = Normal (h @ [el], e') \<and> isLoaded e' \<and> iframe e' = Some (length h) \<and>
         iframes_of (children (container e')) = [length h] \<and>
         (\<exists>ps. src el = SrcUrl \<lparr>constructed_from = ''https://www.tiktok.com/embed/v2/'' @ extractVideoId u,
                                 searchParams = ps\<rparr>) \<and>
         (path_safe (extractVideoId u) \<longrightarrow>
            src_string (src el) =
              Some (''https://www.tiktok.com/embed/v2/'' @ extractVideoId u @ ''?autoplay=1&muted=1''))"
    if asm: "\<not> isLoaded e" "url e = Some u" "extractVideoId u \<noteq> []"
  proof -
    obtain el e' where r: "load_app h e = Normal (h @ [el], e')" "isLoaded e'" "iframe e' = Some (length h)"
      "children (container e') = [frameWrapper (length h)]"
      "src el = SrcUrl (embedUrl_app (extractVideoId u))"
      using load_app_fresh [OF asm, of h] by blast
    have 1: "\<exists>ps. src el = SrcUrl \<lparr>constructed_from = ''https://www.tiktok.com/embed/v2/'' @ extractVideoId u,
                                 searchParams = ps\<rparr>"
      using r(5) by (simp add: embedUrl_app_def searchParams_set_def new_URL_def embed_base_def)
    have 2: "path_safe (extractVideoId u) \<longrightarrow>
            src_string (src el) =
              Some (''https://www.tiktok.com/embed/v2/'' @ extractVideoId u @ ''?autoplay=1&muted=1'')"
      using r(5) by (simp add: embedUrl_app_toString)
    have 3: "iframes_of (children (container e')) = [length h]"
      using r(4) by simp
    from r(1,2,3) 1 2 3 show ?thesis by blast
  qed
  have c: "extractVideoId ''not-a-url'' = ''not-a-url''"
    by (simp add: extractVideoId_def)
  from a b c path_safe_not_a_url(1) show ?thesis
    using load_empty_id [of e u h] extractVideoId_no_query [of w] by blast
qed

theorem load_accepts_last_segment_witness:
  "\<not> isLoaded (TikTokEmbed (example_container ''not-a-url'')) \<and>
   url (TikTokEmbed (example_container ''not-a-url'')) = Some ''not-a-url'' \<and>
   extractVideoId ''not-a-url'' \<noteq> [] \<and> path_safe (extractVideoId ''not-a-url'') \<and>
   isLoaded (snd (state_of (load [] (TikTokEmbed (example_container ''not-a-url''))))) \<and>
   map (\<lambda>el. src_string (src el)) (fst (state_of (load [] (TikTokEmbed (example_container ''not-a-url''))))) =
     [Some ''https://www.tiktok.com/embed/v2/not-a-url?autoplay=1&muted=1&controls=1&rel=0&loop=0''] \<and>
   isLoaded (snd (state_of (load_app [] (TikTokEmbed (example_container ''not-a-url''))))) \<and>
   map (\<lambda>el. src_string (src el)) (fst (state_of (load_app [] (TikTokEmbed (example_container ''not-a-url''))))) =
     [Some ''https://www.tiktok.com/embed/v2/not-a-url?autoplay=1&muted=1''] \<and>
   url (TikTokEmbed (example_container slash_url)) = Some slash_url \<and>
   extractVideoId slash_url = [] \<and>
   load [] (TikTokEmbed (example_container slash_url)) = Normal ([], TikTokEmbed (example_container slash_url)) \<and>
   CHR ''?'' \<notin> set (last (split_on CHR ''/'' ''not-a-url'')) \<and>
   extractVideoId ''not-a-url'' = last (split_on CHR ''/'' ''not-a-url'')"
proof -
  have h1: "\<not> isLoaded (TikTokEmbed (example_container ''not-a-url''))"
    "url (TikTokEmbed (example_container ''not-a-url'')) = Some ''not-a-url''"
    "url (TikTokEmbed (example_container slash_url)) = Some slash_url"
    by (simp_all add: TikTokEmbed_def example_container_def)
  have h2: "extractVideoId ''not-a-url'' \<noteq> []" "extractVideoId slash_url = []"
    "extractVideoId ''not-a-url'' = ''not-a-url''"
    by (simp_all add: extractVideoId_def slash_url_def)
  have h2': "path_safe (extractVideoId ''not-a-url'')"
    using path_safe_not_a_url(1) h2(3) by simp
  have h3: "CHR ''?'' \<notin> set (last (split_on CHR ''/'' ''not-a-url''))"
    by simp
  note t = load_accepts_last_segment [where e = "TikTokEmbed (example_container ''not-a-url'')"
        and u = "''not-a-url''" and h = "[]", THEN conjunct1, rule_format, OF conjI [OF h1(1) conjI [OF h1(2) h2(1)]]]
  obtain el e1 where l1: "load [] (TikTokEmbed (example_container ''not-a-url'')) = Normal ([] @ [el], e1)"
    "isLoaded e1"
    "path_safe (extractVideoId ''not-a-url'') \<longrightarrow>
       src_string (src el) =
         Some (''https://www.tiktok.com/embed/v2/'' @ extractVideoId ''not-a-url'' @
               ''?autoplay=1&muted=1&controls=1&rel=0&loop=0'')"
    using t [THEN conjunct1] by blast
  obtain el' e2 where l2: "load_app [] (TikTokEmbed (example_container ''not-a-url'')) = Normal ([] @ [el'], e2)"
    "isLoaded e2"
    "path_safe (extractVideoId ''not-a-url'') \<longrightarrow>
       src_string (src el') =
         Some (''https://www.tiktok.com/embed/v2/'' @ extractVideoId ''not-a-url'' @ ''?autoplay=1&muted=1'')"
    using t [THEN conjunct2] by blast
  have a: "isLoaded (snd (state_of (load [] (TikTokEmbed (example_container ''not-a-url''))))) \<and>
   map (\<lambda>el. src_string (src el)) (fst (state_of (load [] (TikTokEmbed (example_container ''not-a-url''))))) =
     [Some ''https://www.tiktok.com/embed/v2/not-a-url?autoplay=1&muted=1&controls=1&rel=0&loop=0''] \<and>
   isLoaded (snd (state_of (load_app [] (TikTokEmbed (example_container ''not-a-url''))))) \<and>
   map (\<lambda>el. src_string (src el)) (fst (state_of (load_app [] (TikTokEmbed (example_container ''not-a-url''))))) =
     [Some ''https://www.tiktok.com/embed/v2/not-a-url?autoplay=1&muted=1'']"
    using l1 l2 h2' h2(3) by simp
  have b: "load [] (TikTokEmbed (example_container slash_url)) = Normal ([], TikTokEmbed (example_container slash_url))"
    using h1 h2
      load_accepts_last_segment [where e = "TikTokEmbed (example_container slash_url)"
        and u = slash_url and h = "[]", THEN conjunct2, THEN conjunct1]
    by blast
  have c: "extractVideoId ''not-a-url'' = last (split_on CHR ''/'' ''not-a-url'')"
    using h3 load_accepts_last_segment [where w = "''not-a-url''", THEN conjunct2, THEN conjunct2, THEN conjunct1]
    by blast
  from h1 h2 h2' h3 a b c show ?thesis by blast
qed


subsection \<open>Finding and updating elements\<close>

lemma update_none_iff_find_none:
  "update_node p f n = None \<longleftrightarrow> find_node p n = None"
  "update_first p f ns = None \<longleftrightarrow> find_first p ns = None"
  by (induction p f n and p f ns rule: update_node_update_first.induct)
     (auto split: option.splits)

lemma map_of_set_attr_other: "k \<noteq> k' \<Longrightarrow> map_of (set_attr k v a) k' = map_of a k'"
  by (induction a) auto

lemma map_of_filter_other: "k \<noteq> k' \<Longrightarrow> map_of (filter (\<lambda>p. fst p \<noteq> k) a) k' = map_of a k'"
  by (induction a) auto

lemma map_of_filter_same: "map_of (filter (\<lambda>p. fst p \<noteq> k) a) k = None"
  by (induction a) auto

lemma has_class_setAttribute: "k \<noteq> ''class'' \<Longrightarrow> has_class q (setAttribute k v n) = has_class q n"
  by (cases n) (simp_all add: map_of_set_attr_other)

lemma has_class_removeAttribute: "k \<noteq> ''class'' \<Longrightarrow> has_class q (removeAttribute k n) = has_class q n"
  by (cases n) (simp_all add: map_of_filter_other)

lemma find_node_setAttribute:
  "k \<noteq> ''class'' \<Longrightarrow> find_node (has_class q) (setAttribute k v n) = None \<longleftrightarrow> find_node (has_class q) n = None"
  by (cases n) (simp_all add: map_of_set_attr_other)

lemma update_keeps_presence:
  "(\<And>n. find_node (has_class q) (f n) = None \<longleftrightarrow> find_node (has_class q) n = None) \<Longrightarrow>
     update_node p f n = Some n' \<Longrightarrow>
     find_node (has_class q) n' = None \<longleftrightarrow> find_node (has_class q) n = None"
  "(\<And>n. find_node (has_class q) (f n) = None \<longleftrightarrow> find_node (has_class q) n = None) \<Longrightarrow>
     update_first p f ns = Some ns' \<Longrightarrow>
     find_first (has_class q) ns' = None \<longleftrightarrow> find_first (has_class q) ns = None"
proof (induction p f n and p f ns arbitrary: n' and ns' rule: update_node_update_first.induct)
  case (1 p f t a l cs)
  show ?case
  proof (cases "p (Element t a l cs)")
    case True
    then have "n' = f (Element t a l cs)" using 1(3) by simp
    then show ?thesis by (simp only: 1(2))
  next
    case False
    then obtain cs' where cs': "update_first p f cs = Some cs'" "n' = Element t a l cs'"
      using 1(3) by (auto split: option.splits)
    have "find_first (has_class q) cs' = None \<longleftrightarrow> find_first (has_class q) cs = None"
      using 1(1) [OF False 1(2) cs'(1)] .
    then show ?thesis using cs' by simp
  qed
next
  case (5 p f n ns)
  show ?case
  proof (cases "update_node p f n")
    case None
    then obtain ns1 where ns1: "update_first p f ns = Some ns1" "ns' = n # ns1"
      using 5(4) by (auto split: option.splits)
    have "find_first (has_class q) ns1 = None \<longleftrightarrow> find_first (has_class q) ns = None"
      using 5(2) [OF None 5(3) ns1(1)] .
    then show ?thesis using ns1 by (simp split: option.splits)
  next
    case (Some n1)
    then have eq: "ns' = n1 # ns" using 5(4) by simp
    have "find_node (has_class q) n1 = None \<longleftrightarrow> find_node (has_class q) n = None"
      using 5(1) [OF 5(3) Some] .
    then show ?thesis using eq by (auto split: option.splits)
  qed
qed simp_all

lemma update_then_find:
  "(\<And>n. has_class c n \<Longrightarrow> has_class c (f n)) \<Longrightarrow>
     update_node (has_class c) f n = Some n' \<Longrightarrow>
     find_node (has_class c) n' = map_option f (find_node (has_class c) n)"
  "(\<And>n. has_class c n \<Longrightarrow> has_class c (f n)) \<Longrightarrow>
     update_first (has_class c) f ns = Some ns' \<Longrightarrow>
     find_first (has_class c) ns' = map_option f (find_first (has_class c) ns)"
proof (induction "has_class c" f n and "has_class c" f ns arbitrary: n' and ns'
        rule: update_node_update_first.induct)
  case (1 f t a l cs)
  show ?case
  proof (cases "has_class c (Element t a l cs)")
    case True
    then have n': "n' = f (Element t a l cs)" using 1(3) by simp
    have "has_class c (f (Element t a l cs))" using 1(2) True by blast
    then have "find_node (has_class c) (f (Element t a l cs)) = Some (f (Element t a l cs))"
      by (cases "f (Element t a l cs)") auto
    then show ?thesis using True n' by simp
  next
    case False
    then obtain cs' where cs': "update_first (has_class c) f cs = Some cs'" "n' = Element t a l cs'"
      using 1(3) by (auto split: option.splits)
    have "find_first (has_class c) cs' = map_option f (find_first (has_class c) cs)"
      using 1(1) [OF False 1(2) cs'(1)] by simp
    then show ?thesis using cs' False by simp
  qed
next
  case (5 f n ns)
  show ?case
  proof (cases "update_node (has_class c) f n")
    case None
    then obtain ns1 where ns1: "update_first (has_class c) f ns = Some ns1" "ns' = n # ns1"
      using 5(4) by (auto split: option.splits)
    have none: "find_node (has_class c) n = None"
      using None by (simp add: update_none_iff_find_none)
    have "find_first (has_class c) ns1 = map_option f (find_first (has_class c) ns)"
      using 5(2) [OF None 5(3) ns1(1)] by simp
    then show ?thesis using ns1 none by simp
  next
    case (Some n1)
    then have eq: "ns' = n1 # ns" using 5(4) by simp
    have f1: "find_node (has_class c) n1 = map_option f (find_node (has_class c) n)"
      using 5(1) [OF 5(3) Some] by simp
    have "find_node (has_class c) n \<noteq> None"
      using Some update_none_iff_find_none(1) [of "has_class c" f n] by simp
    then show ?thesis using eq f1 by (auto split: option.splits)
  qed
qed auto

lemma update_appends_iframe:
  "(\<And>n. p n \<Longrightarrow> iframes_in n = [] \<Longrightarrow> iframes_in (f n) = [r]) \<Longrightarrow>
     iframes_in n = [] \<Longrightarrow> update_node p f n = Some n' \<Longrightarrow> iframes_in n' = [r]"
  "(\<And>n. p n \<Longrightarrow> iframes_in n = [] \<Longrightarrow> iframes_in (f n) = [r]) \<Longrightarrow>
     iframes_of ns = [] \<Longrightarrow> update_first p f ns = Some ns' \<Longrightarrow> iframes_of ns' = [r]"
proof (induction p f n and p f ns arbitrary: n' and ns' rule: update_node_update_first.induct)
  case (1 p f t a l cs)
  show ?case
  proof (cases "p (Element t a l cs)")
    case True
    then show ?thesis using 1(2,3,4) by auto
  next
    case False
    then obtain cs' where cs': "update_first p f cs = Some cs'" "n' = Element t a l cs'"
      using 1(4) by (auto split: option.splits)
    have "iframes_of cs = []" using 1(3) by (simp add: iframes_of_def)
    then have "iframes_of cs' = [r]" using 1(1) [OF False 1(2) _ cs'(1)] by simp
    then show ?thesis using cs' by (simp add: iframes_of_def)
  qed
next
  case (5 p f n ns)
  have e: "iframes_in n = []" "iframes_of ns = []"
    using 5(4) by (simp_all add: iframes_of_def)
  show ?case
  proof (cases "update_node p f n")
    case None
    then obtain ns1 where ns1: "update_first p f ns = Some ns1" "ns' = n # ns1"
      using 5(5) by (auto split: option.splits)
    have "iframes_of ns1 = [r]" using 5(2) [OF None 5(3) e(2) ns1(1)] .
    then show ?thesis using ns1 e by (simp add: iframes_of_def)
  next
    case (Some n1)
    then have eq: "ns' = n1 # ns" using 5(5) by simp
    have "iframes_in n1 = [r]" using 5(1) [OF 5(3) e(1) Some] .
    then show ?thesis using eq e by (simp add: iframes_of_def)
  qed
qed auto

lemma find_is_element:
  "find_node p n = Some m \<Longrightarrow> \<exists>t a l cs. m = Element t a l cs"
  "find_first p ns = Some m \<Longrightarrow> \<exists>t a l cs. m = Element t a l cs"
  by (induction p n and p ns rule: find_node_find_first.induct)
     (auto split: if_splits option.splits)

lemma find_first_not_text: "find_first p ns \<noteq> Some (Text x)"
  using find_is_element(2) [of p ns "Text x"] by auto

lemma find_first_not_iframe: "find_first p ns \<noteq> Some (Iframe x)"
  using find_is_element(2) [of p ns "Iframe x"] by auto

subsection \<open>\<open>hydrateTikTok\<close>\<close>

lemma hydrateTikTok_marks:
  "i < length (cards s) \<Longrightarrow> i \<in> hydratedTikToks (state_of (hydrateTikTok i s))"
  by (simp add: hydrateTikTok_def Let_def set_card_def split: option.splits)

lemma hydrateTikTok_noop:
  "i \<in> hydratedTikToks s \<Longrightarrow> hydrateTikTok i s = Normal s"
  by (simp add: hydrateTikTok_def)

lemma hydrateTikTok_keeps:
  "i \<in> hydratedTikToks s \<Longrightarrow>
     i \<in> hydratedTikToks (state_of (hydrateTikTok j s)) \<and>
     cards (state_of (hydrateTikTok j s)) ! i = cards s ! i"
proof (cases "j = i")
  case True
  assume "i \<in> hydratedTikToks s"
  then show ?thesis using True by (simp add: hydrateTikTok_noop)
next
  case False
  assume "i \<in> hydratedTikToks s"
  then show ?thesis using False
    by (simp add: hydrateTikTok_def Let_def set_card_def split: option.splits)
qed

lemma app_step_keeps:
  "i \<in> hydratedTikToks s \<Longrightarrow>
     i \<in> hydratedTikToks (app_step ev s) \<and> cards (app_step ev s) ! i = cards s ! i"
  by (cases ev) (simp_all add: hydrateTikTok_keeps)

lemma app_run_keeps:
  "i \<in> hydratedTikToks s \<Longrightarrow>
     i \<in> hydratedTikToks (app_run evs s) \<and> cards (app_run evs s) ! i = cards s ! i"
proof (induction evs arbitrary: s)
  case Nil
  then show ?case by simp
next
  case (Cons ev evs)
  have "i \<in> hydratedTikToks (app_step ev s)" "cards (app_step ev s) ! i = cards s ! i"
    using app_step_keeps [OF Cons.prems] by simp_all
  then show ?case using Cons.IH [of "app_step ev s"] by simp
qed

lemma or_else_Some_empty [simp]: "or_else (Some u) [] = u"
  by simp

lemma hydrateTikTok_error_branch:
  assumes i: "i < length (cards s)" "i \<notin> hydratedTikToks s"
    and u: "tiktokUrl (cards s ! i) = Some u" "match_video u = None"
    and img: "find_first (has_class ''ttk__poster-img'') (children (cards s ! i)) \<noteq> None"
    and err: "find_first (has_class ''ttk__error'') (children (cards s ! i)) \<noteq> None"
  shows "\<exists>s' box. hydrateTikTok i s = Normal s' \<and> i \<in> hydratedTikToks s' \<and>
           app_frames s' = app_frames s \<and>
           find_first (has_class ''ttk__error'') (children (cards s' ! i)) = Some box \<and>
           child_nodes box = fallbackMarkup u \<and> map_of (attrs_of box) ''hidden'' = None"
proof -
  let ?ns = "children (cards s ! i)"
  let ?f1 = "setAttribute ''src'' (or_else (poster (cards s ! i)) [])"
  let ?f2 = "\<lambda>n. set_innerHTML (fallbackMarkup u) (removeAttribute ''hidden'' n)"
  obtain ns1 where ns1: "update_first (has_class ''ttk__poster-img'') ?f1 ?ns = Some ns1"
    using img update_none_iff_find_none(2) [of "has_class ''ttk__poster-img''" ?f1 ?ns]
    by (cases "update_first (has_class ''ttk__poster-img'') ?f1 ?ns") auto
  have "find_first (has_class ''ttk__error'') ns1 = None \<longleftrightarrow>
        find_first (has_class ''ttk__error'') ?ns = None"
    by (rule update_keeps_presence(2) [OF _ ns1]) (simp add: find_node_setAttribute)
  then obtain box0 where box0: "find_first (has_class ''ttk__error'') ns1 = Some box0"
    using err by (cases "find_first (has_class ''ttk__error'') ns1") auto
  obtain ns2 where ns2: "update_first (has_class ''ttk__error'') ?f2 ns1 = Some ns2"
    using box0 update_none_iff_find_none(2) [of "has_class ''ttk__error''" ?f2 ns1]
    by (cases "update_first (has_class ''ttk__error'') ?f2 ns1") auto
  have keep: "\<And>n. has_class ''ttk__error'' n \<Longrightarrow> has_class ''ttk__error'' (?f2 n)"
  proof -
    fix n
    assume "has_class ''ttk__error'' n"
    then show "has_class ''ttk__error'' (?f2 n)"
      by (cases n) (simp_all add: map_of_filter_other)
  qed
  have found: "find_first (has_class ''ttk__error'') ns2 = Some (?f2 box0)"
    using update_then_find(2) [of "''ttk__error''" ?f2 ns1 ns2, OF keep ns2] box0 by simp
  have box: "child_nodes (?f2 box0) = fallbackMarkup u \<and> map_of (attrs_of (?f2 box0)) ''hidden'' = None"
  proof (cases box0)
    case (Element t a l cs)
    then show ?thesis by (simp add: map_of_filter_same)
  next
    case (Text x)
    have "find_first (has_class ''ttk__error'') ns1 \<noteq> Some (Text x)"
      by (rule find_first_not_text)
    then show ?thesis using box0 Text by simp
  next
    case (Iframe x)
    have "find_first (has_class ''ttk__error'') ns1 \<noteq> Some (Iframe x)"
      by (rule find_first_not_iframe)
    then show ?thesis using box0 Iframe by simp
  qed
  let ?s' = "set_card i ns2 (s\<lparr>hydratedTikToks := insert i (hydratedTikToks s)\<rparr>)"
  have run: "hydrateTikTok i s = Normal ?s'"
    using i u ns1 ns2 by (simp add: hydrateTikTok_def Let_def)
  have "children (cards ?s' ! i) = ns2"
    using i by (simp add: set_card_def)
  then show ?thesis
    using run found box by (simp add: set_card_def)
qed

lemma hydrateTikTok_frame_branch:
  assumes i: "i < length (cards s)" "i \<notin> hydratedTikToks s"
    and u: "tiktokUrl (cards s ! i) = Some u" "match_video u = Some v"
    and img: "find_first (has_class ''ttk__poster-img'') (children (cards s ! i)) \<noteq> None"
    and btn: "find_first (has_class ''ttk__poster'') (children (cards s ! i)) \<noteq> None"
    and frm: "find_first (has_class ''ttk__frame'') (children (cards s ! i)) \<noteq> None"
    and io: "hasIntersectionObserver s"
  shows "\<exists>s'. hydrateTikTok i s = Normal s' \<and> i \<in> hydratedTikToks s' \<and>
           app_frames s' = app_frames s @ [buildIframe v] \<and>
           playObserved s' = playObserved s @ [length (app_frames s)] \<and>
           (iframes_of (children (cards s ! i)) = [] \<longrightarrow>
              iframes_of (children (cards s' ! i)) = [length (app_frames s)])"
proof -
  let ?ns = "children (cards s ! i)"
  let ?r = "length (app_frames s)"
  let ?f1 = "setAttribute ''src'' (or_else (poster (cards s ! i)) [])"
  let ?f2 = "setAttribute ''hidden'' []"
  let ?f3 = "\<lambda>n. appendChild (Iframe ?r) (removeAttribute ''hidden'' n)"
  obtain ns1 where ns1: "update_first (has_class ''ttk__poster-img'') ?f1 ?ns = Some ns1"
    using img update_none_iff_find_none(2) [of "has_class ''ttk__poster-img''" ?f1 ?ns]
    by (cases "update_first (has_class ''ttk__poster-img'') ?f1 ?ns") auto
  have p1: "find_first (has_class q) ns1 = None \<longleftrightarrow> find_first (has_class q) ?ns = None" for q
    by (rule update_keeps_presence(2) [OF _ ns1]) (simp add: find_node_setAttribute)
  obtain ns2 where ns2: "update_first (has_class ''ttk__poster'') ?f2 ns1 = Some ns2"
    using btn p1 [of "''ttk__poster''"]
      update_none_iff_find_none(2) [of "has_class ''ttk__poster''" ?f2 ns1]
    by (cases "update_first (has_class ''ttk__poster'') ?f2 ns1") auto
  have p2: "find_first (has_class q) ns2 = None \<longleftrightarrow> find_first (has_class q) ns1 = None" for q
    by (rule update_keeps_presence(2) [OF _ ns2]) (simp add: find_node_setAttribute)
  obtain ns3 where ns3: "update_first (has_class ''ttk__frame'') ?f3 ns2 = Some ns3"
    using frm p1 [of "''ttk__frame''"] p2 [of "''ttk__frame''"]
      update_none_iff_find_none(2) [of "has_class ''ttk__frame''" ?f3 ns2]
    by (cases "update_first (has_class ''ttk__frame'') ?f3 ns2") auto
  have k1: "iframes_of ns1 = iframes_of ?ns"
    by (rule update_keeps_iframes(2) [OF _ ns1]) simp
  have k2: "iframes_of ns2 = iframes_of ns1"
    by (rule update_keeps_iframes(2) [OF _ ns2]) simp
  have app: "\<And>n. has_class ''ttk__frame'' n \<Longrightarrow> iframes_in n = [] \<Longrightarrow> iframes_in (?f3 n) = [?r]"
  proof -
    fix n
    assume "has_class ''ttk__frame'' n" "iframes_in n = []"
    then show "iframes_in (?f3 n) = [?r]" by (cases n) simp_all
  qed
  have k3: "iframes_of ns3 = [?r]" if "iframes_of ?ns = []"
    by (rule update_appends_iframe(2) [OF app _ ns3]) (simp_all add: k1 k2 that)
  let ?s' = "(set_card i ns3 (s\<lparr>hydratedTikToks := insert i (hydratedTikToks s)\<rparr>))
               \<lparr>app_frames := app_frames s @ [buildIframe v],
                playObserved := playObserved s @ [?r]\<rparr>"
  have run: "hydrateTikTok i s = Normal ?s'"
    using i u io ns1 ns2 ns3 by (simp add: hydrateTikTok_def Let_def set_card_def)
  have "children (cards ?s' ! i) = ns3"
    using i by (simp add: set_card_def)
  then show ?thesis
    using run k3 by (simp add: set_card_def)
qed

lemma example_app_simps:
  "cards (example_app u) =
     [(example_card u)\<lparr>children :=
        [Element ''button'' [(''class'', ''ttk__poster''), (''type'', ''button'')] [''click'']
           [Element ''img'' [(''class'', ''ttk__poster-img''), (''alt'', [])] [] []],
         Element ''div'' [(''class'', ''ttk__frame''), (''hidden'', [])] [] [],
         Element ''div'' [(''class'', ''ttk__error''), (''hidden'', [])] [] []]\<rparr>]"
  "hydratedTikToks (example_app u) = {}"
  "app_frames (example_app u) = []"
  "hasIntersectionObserver (example_app u)"
  "observedCards (example_app u) = {0..<1}"
  "\<not> prefersReduced (example_app u)"
  by (simp_all add: example_app_def initTikTok_def example_card_def card_markup_def Let_def)

lemma example_card_facts:
  "0 < length (cards (example_app u))"
  "0 \<notin> hydratedTikToks (example_app u)"
  "tiktokUrl (cards (example_app u) ! 0) = Some u"
  "find_first (has_class ''ttk__poster-img'') (children (cards (example_app u) ! 0)) \<noteq> None"
  "find_first (has_class ''ttk__poster'') (children (cards (example_app u) ! 0)) \<noteq> None"
  "find_first (has_class ''ttk__frame'') (children (cards (example_app u) ! 0)) \<noteq> None"
  "find_first (has_class ''ttk__error'') (children (cards (example_app u) ! 0)) \<noteq> None"
  "iframes_of (children (cards (example_app u) ! 0)) = []"
  by (simp_all add: example_app_simps example_card_def iframes_of_def)

lemma example_error_box:
  "map_option tag_of (find_first (has_class ''ttk__error'') (children (cards (example_app u) ! 0))) = Some ''div''"
  by (simp add: example_app_simps example_card_def)

lemma match_examples:
  "match_video ''not-a-url'' = None"
  "match_video example_url = Some ''123456''"
  by (simp_all add: example_url_def is_digit_def)

text \<open>
  Claim C2, as the claim states it, fails for the class \<open>TikTokEmbed\<close>: on the claim's own
  example \<open>not-a-url\<close>, which holds no identifier of the form \<open>video/\<close> and digits,
  \<open>load\<close> leaves the embed loaded and the container holding the frame wrapper with the
  iframe, and no link.
\<close>

theorem load_not_a_url_counterexample:
  "match_video ''not-a-url'' = None \<and>
   isLoaded (snd (state_of (load [] (TikTokEmbed (example_container ''not-a-url''))))) \<and>
   children (container (snd (state_of (load [] (TikTokEmbed (example_container ''not-a-url''))))))
     = [frameWrapper 0] \<and>
   hrefs_of [frameWrapper 0] = []"
  by (simp add: example_container_def page_poster_def is_digit_def hrefs_of_def frameWrapper_def
       TikTokEmbed_def init_def load_def extractVideoId_def Let_def)

text \<open>
  Claim C2, amended. For every card whose URL holds no match of \<open>video/\<close> followed by
  digits (such as \<open>not-a-url\<close>) and is \<open>attr_safe\<close>, \<open>hydrateTikTok\<close>, run for the first
  time on the card and the card having its poster image and, as a \<open>div\<close>, its error box,
  returns normally with the card marked as hydrated, no iframe created, and the error box
  shown (its \<open>hidden\<close> attribute removed) with the fallback markup as its content: a
  paragraph and one link, whose \<open>href\<close> is the original URL.
\<close>

theorem hydrateTikTok_renders_fallback:
  "(i < length (cards s) \<and> i \<notin> hydratedTikToks s \<and>
    tiktokUrl (cards s ! i) = Some u \<and> match_video u = None \<and> attr_safe u \<and>
    find_first (has_class ''ttk__poster-img'') (children (cards s ! i)) \<noteq> None \<and>
    map_option tag_of (find_first (has_class ''ttk__error'') (children (cards s ! i))) = Some ''div'' \<longrightarrow>
      (\<exists>s' box. hydrateTikTok i s = Normal s' \<and> i \<in> hydratedTikToks s' \<and>
         app_frames s' = app_frames s \<and>
         find_first (has_class ''ttk__error'') (children (cards s' ! i)) = Some box \<and>
         map_of (attrs_of box) ''hidden'' = None \<and>
         child_nodes box =
           [Element ''p'' [] [] [Text (''Couldn'' @ [CHR 0xE2, CHR 0x80, CHR 0x99] @ ''t load video.'')],
            Element ''a'' [(''href'', u), (''target'', ''_blank''), (''rel'', ''noopener'')] []
              [Text ''Open on TikTok'']] \<and>
         hrefs_of (child_nodes box) = [u])) \<and>
   match_video ''not-a-url'' = None \<and> attr_safe ''not-a-url''"
proof -
  have "hrefs_of (fallbackMarkup u) = [u]"
    by (simp add: fallbackMarkup_def hrefs_of_def)
  moreover have "fallbackMarkup u =
           [Element ''p'' [] [] [Text (''Couldn'' @ [CHR 0xE2, CHR 0x80, CHR 0x99] @ ''t load video.'')],
            Element ''a'' [(''href'', u), (''target'', ''_blank''), (''rel'', ''noopener'')] []
              [Text ''Open on TikTok'']]"
    by (simp add: fallbackMarkup_def)
  moreover have "find_first (has_class ''ttk__error'') (children (cards s ! i)) \<noteq> None"
    if "map_option tag_of (find_first (has_class ''ttk__error'') (children (cards s ! i))) = Some ''div''"
    using that by auto
  ultimately show ?thesis
    using hydrateTikTok_error_branch [of i s u] match_examples(1) attr_safe_examples(1)
    by (metis (no_types, lifting))
qed

theorem hydrateTikTok_renders_fallback_witness:
  "0 < length (cards (example_app ''not-a-url'')) \<and>
   0 \<notin> hydratedTikToks (example_app ''not-a-url'') \<and>
   tiktokUrl (cards (example_app ''not-a-url'') ! 0) = Some ''not-a-url'' \<and>
   match_video ''not-a-url'' = None \<and> attr_safe ''not-a-url'' \<and>
   find_first (has_class ''ttk__poster-img'') (children (cards (example_app ''not-a-url'') ! 0)) \<noteq> None \<and>
   map_option tag_of (find_first (has_class ''ttk__error'') (children (cards (example_app ''not-a-url'') ! 0))) =
     Some ''div'' \<and>
   \<not> threw (hydrateTikTok 0 (example_app ''not-a-url'')) \<and>
   0 \<in> hydratedTikToks (state_of (hydrateTikTok 0 (example_app ''not-a-url''))) \<and>
   (\<exists>box. find_first (has_class ''ttk__error'')
            (children (cards (state_of (hydrateTikTok 0 (example_app ''not-a-url''))) ! 0)) = Some box \<and>
          hrefs_of (child_nodes box) = [''not-a-url''])"
proof -
  note hyps = example_card_facts(1,2,3,4) [of "''not-a-url''"] example_error_box [of "''not-a-url''"]
    match_examples(1) attr_safe_examples(1)
  note t = hydrateTikTok_renders_fallback [of 0 "example_app ''not-a-url''" "''not-a-url''", THEN conjunct1]
  have "\<exists>s' box. hydrateTikTok 0 (example_app ''not-a-url'') = Normal s' \<and> 0 \<in> hydratedTikToks s' \<and>
         find_first (has_class ''ttk__error'') (children (cards s' ! 0)) = Some box \<and>
         hrefs_of (child_nodes box) = [''not-a-url'']"
    using hyps t by blast
  then obtain s' box where "hydrateTikTok 0 (example_app ''not-a-url'') = Normal s'"
    "0 \<in> hydratedTikToks s'"
    "find_first (has_class ''ttk__error'') (children (cards s' ! 0)) = Some box"
    "hrefs_of (child_nodes box) = [''not-a-url'']"
    by blast
  then have "\<not> threw (hydrateTikTok 0 (example_app ''not-a-url'')) \<and>
   0 \<in> hydratedTikToks (state_of (hydrateTikTok 0 (example_app ''not-a-url''))) \<and>
   (\<exists>box. find_first (has_class ''ttk__error'')
            (children (cards (state_of (hydrateTikTok 0 (example_app ''not-a-url''))) ! 0)) = Some box \<and>
          hrefs_of (child_nodes box) = [''not-a-url''])"
    by simp
  with hyps show ?thesis by blast
qed

text \<open>
  Claim C10. \<open>hydrateTikTok\<close> adds the card to the page-wide set before it looks for the
  identifier, so after it has run on a card, in whatever branch it ended (the error
  branch and the throwing ones included), the card is in the set; from then on
  \<open>hydrateTikTok\<close> on that card, and so the click handler of its poster button, changes
  nothing, and over every later sequence of clicks and observer reports on the page the
  card stays in the set and its content stays as it was left.
\<close>

theorem hydrateTikTok_once_only:
  "(i < length (cards s) \<longrightarrow>
      i \<in> hydratedTikToks (state_of (hydrateTikTok i s)) \<and>
      hydrateTikTok i (state_of (hydrateTikTok i s)) = Normal (state_of (hydrateTikTok i s)) \<and>
      app_step (Click i) (state_of (hydrateTikTok i s)) = state_of (hydrateTikTok i s) \<and>
      i \<in> hydratedTikToks (app_run evs (state_of (hydrateTikTok i s))) \<and>
      cards (app_run evs (state_of (hydrateTikTok i s))) ! i = cards (state_of (hydrateTikTok i s)) ! i) \<and>
   (i \<in> hydratedTikToks s \<longrightarrow> hydrateTikTok i s = Normal s)"
proof -
  have "i \<in> hydratedTikToks (state_of (hydrateTikTok i s)) \<and>
      hydrateTikTok i (state_of (hydrateTikTok i s)) = Normal (state_of (hydrateTikTok i s)) \<and>
      app_step (Click i) (state_of (hydrateTikTok i s)) = state_of (hydrateTikTok i s) \<and>
      i \<in> hydratedTikToks (app_run evs (state_of (hydrateTikTok i s))) \<and>
      cards (app_run evs (state_of (hydrateTikTok i s))) ! i = cards (state_of (hydrateTikTok i s)) ! i"
    if "i < length (cards s)"
  proof -
    have m: "i \<in> hydratedTikToks (state_of (hydrateTikTok i s))"
      using that by (rule hydrateTikTok_marks)
    show ?thesis
      using m hydrateTikTok_noop [OF m] app_run_keeps [OF m, of evs] by simp
  qed
  then show ?thesis
    using hydrateTikTok_noop [of i s] by blast
qed

theorem hydrateTikTok_once_only_witness:
  "0 < length (cards (example_app ''not-a-url'')) \<and>
   0 \<in> hydratedTikToks (state_of (hydrateTikTok 0 (example_app ''not-a-url''))) \<and>
   app_step (Click 0) (state_of (hydrateTikTok 0 (example_app ''not-a-url''))) =
     state_of (hydrateTikTok 0 (example_app ''not-a-url'')) \<and>
   cards (app_run [Click 0, Entry 0 True, Click 0] (state_of (hydrateTikTok 0 (example_app ''not-a-url''))) ) ! 0 =
     cards (state_of (hydrateTikTok 0 (example_app ''not-a-url''))) ! 0 \<and>
   hydrateTikTok 0 (state_of (hydrateTikTok 0 (example_app ''not-a-url''))) =
     Normal (state_of (hydrateTikTok 0 (example_app ''not-a-url'')))"
proof -
  have h: "0 < length (cards (example_app ''not-a-url''))"
    by (rule example_card_facts(1))
  have a: "0 \<in> hydratedTikToks (state_of (hydrateTikTok 0 (example_app ''not-a-url''))) \<and>
   app_step (Click 0) (state_of (hydrateTikTok 0 (example_app ''not-a-url''))) =
     state_of (hydrateTikTok 0 (example_app ''not-a-url'')) \<and>
   cards (app_run [Click 0, Entry 0 True, Click 0] (state_of (hydrateTikTok 0 (example_app ''not-a-url''))) ) ! 0 =
     cards (state_of (hydrateTikTok 0 (example_app ''not-a-url''))) ! 0"
    using h hydrateTikTok_once_only [of 0 "example_app ''not-a-url''" "[Click 0, Entry 0 True, Click 0]"]
    by blast
  then have "hydrateTikTok 0 (state_of (hydrateTikTok 0 (example_app ''not-a-url''))) =
     Normal (state_of (hydrateTikTok 0 (example_app ''not-a-url'')))"
    using hydrateTikTok_once_only [of 0 "state_of (hydrateTikTok 0 (example_app ''not-a-url''))"]
    by blast
  with h a show ?thesis by blast
qed

subsection \<open>The embed URL\<close>

text \<open>
  Claim C6, as the claim states it, fails for \<open>buildIframe\<close>: on the claim's example URL
  \<open>hydrateTikTok\<close> creates an iframe whose URL has \<open>video\<close>, not the identifier, as the
  path segment directly after \<open>/embed/v2/\<close>.
\<close>

theorem buildIframe_path_counterexample:
  "match_video example_url = Some ''123456'' \<and>
   map (\<lambda>el. src_string (src el)) (app_frames (state_of (hydrateTikTok 0 (example_app example_url)))) =
     [Some ''https://www.tiktok.com/embed/v2/video/123456?lang=en-US&autoplay=1&controls=1&muted=1''] \<and>
   path_segment_after ''https://www.tiktok.com/embed/v2/''
     ''https://www.tiktok.com/embed/v2/video/123456?lang=en-US&autoplay=1&controls=1&muted=1'' = ''video''"
proof -
  have "\<exists>s'. hydrateTikTok 0 (example_app example_url) = Normal s' \<and>
          app_frames s' = app_frames (example_app example_url) @ [buildIframe ''123456'']"
    using hydrateTikTok_frame_branch [of 0 "example_app example_url" example_url "''123456''"]
      example_card_facts [of example_url] match_examples(2) example_app_simps(4) [of example_url]
    by blast
  then have "app_frames (state_of (hydrateTikTok 0 (example_app example_url))) = [buildIframe ''123456'']"
    by (auto simp: example_app_simps)
  then show ?thesis
    by (simp add: match_examples buildIframe_def path_segment_after_def)
qed

text \<open>
  Claim C6, amended. For every Placeholder whose extracted identifier consists of
  letters, digits, \<open>-\<close> and \<open>_\<close> only (every numeric identifier does), the iframe that
  \<open>load\<close> of the optimised script creates has the URL
  \<open>https://www.tiktok.com/embed/v2/\<close>, the identifier, and
  \<open>?autoplay=1&muted=1&controls=1&rel=0&loop=0\<close>: the identifier is the path segment
  directly after \<open>/embed/v2/\<close>. The iframe that \<open>hydrateTikTok\<close> creates through
  \<open>buildIframe\<close> has the URL \<open>https://www.tiktok.com/embed/v2/video/\<close>, the identifier, and
  \<open>?lang=en-US&autoplay=1&controls=1&muted=1\<close>: the segment directly after \<open>/embed/v2/\<close>
  is \<open>video\<close>. On the example URL both extract 123456.
\<close>

theorem embed_url_form:
  "(\<not> isLoaded e \<and> url e = Some u \<and> path_safe (extractVideoId u) \<longrightarrow>
      (\<exists>el e'. load h e = Normal (h @ [el], e') \<and> iframe e' = Some (length h) \<and>
         src el = SrcUrl \<lparr>constructed_from = ''https://www.tiktok.com/embed/v2/'' @ extractVideoId u,
                          searchParams = [(''autoplay'', ''1''), (''muted'', ''1''), (''controls'', ''1''),
                                          (''rel'', ''0''), (''loop'', ''0'')]\<rparr> \<and>
         src_string (src el) =
           Some (''https://www.tiktok.com/embed/v2/'' @ extractVideoId u @
                 ''?autoplay=1&muted=1&controls=1&rel=0&loop=0'') \<and>
         path_segment_after ''https://www.tiktok.com/embed/v2/''
           (''https://www.tiktok.com/embed/v2/'' @ extractVideoId u @
            ''?autoplay=1&muted=1&controls=1&rel=0&loop=0'') = extractVideoId u)) \<and>
   (d \<noteq> [] \<and> list_all is_digit d \<longrightarrow> path_safe d) \<and>
   (i < length (cards s) \<and> i \<notin> hydratedTikToks s \<and>
    tiktokUrl (cards s ! i) = Some w \<and> match_video w = Some v \<and>
    find_first (has_class ''ttk__poster-img'') (children (cards s ! i)) \<noteq> None \<and>
    find_first (has_class ''ttk__poster'') (children (cards s ! i)) \<noteq> None \<and>
    find_first (has_class ''ttk__frame'') (children (cards s ! i)) \<noteq> None \<and>
    hasIntersectionObserver s \<longrightarrow>
      (\<exists>s'. hydrateTikTok i s = Normal s' \<and>
         map (\<lambda>el. src_string (src el)) (app_frames s') =
           map (\<lambda>el. src_string (src el)) (app_frames s) @
           [Some (''https://www.tiktok.com/embed/v2/video/'' @ v @
                  ''?lang=en-US&autoplay=1&controls=1&muted=1'')])) \<and>
   path_segment_after ''https://www.tiktok.com/embed/v2/''
     (''https://www.tiktok.com/embed/v2/video/'' @ v' @ ''?lang=en-US&autoplay=1&controls=1&muted=1'') = ''video'' \<and>
   extractVideoId example_url = ''123456'' \<and> match_video example_url = Some ''123456''"
proof -
  have a: "\<exists>el e'. load h e = Normal (h @ [el], e') \<and> iframe e' = Some (length h) \<and>
         src el = SrcUrl \<lparr>constructed_from = ''https://www.tiktok.com/embed/v2/'' @ extractVideoId u,
                          searchParams = [(''autoplay'', ''1''), (''muted'', ''1''), (''controls'', ''1''),
                                          (''rel'', ''0''), (''loop'', ''0'')]\<rparr> \<and>
         src_string (src el) =
           Some (''https://www.tiktok.com/embed/v2/'' @ extractVideoId u @
                 ''?autoplay=1&muted=1&controls=1&rel=0&loop=0'') \<and>
         path_segment_after ''https://www.tiktok.com/embed/v2/''
           (''https://www.tiktok.com/embed/v2/'' @ extractVideoId u @
            ''?autoplay=1&muted=1&controls=1&rel=0&loop=0'') = extractVideoId u"
    if asm: "\<not> isLoaded e" "url e = Some u" "path_safe (extractVideoId u)"
  proof -
    have ne: "extractVideoId u \<noteq> []" using asm(3) by (simp add: path_safe_def)
    obtain el e' where r: "load h e = Normal (h @ [el], e')" "iframe e' = Some (length h)"
      "src el = SrcUrl (embedUrl (extractVideoId u))"
      using load_fresh [OF asm(1,2) ne, of h] by blast
    have 1: "src el = SrcUrl \<lparr>constructed_from = ''https://www.tiktok.com/embed/v2/'' @ extractVideoId u,
                          searchParams = [(''autoplay'', ''1''), (''muted'', ''1''), (''controls'', ''1''),
                                          (''rel'', ''0''), (''loop'', ''0'')]\<rparr>"
      using r(3) by (simp add: embedUrl_def searchParams_set_def new_URL_def embed_base_def)
    have 2: "src_string (src el) =
           Some (''https://www.tiktok.com/embed/v2/'' @ extractVideoId u @
                 ''?autoplay=1&muted=1&controls=1&rel=0&loop=0'')"
      using r(3) asm(3) by (simp add: embedUrl_toString)
    have 3: "path_segment_after ''https://www.tiktok.com/embed/v2/''
           (''https://www.tiktok.com/embed/v2/'' @ extractVideoId u @
            ''?autoplay=1&muted=1&controls=1&rel=0&loop=0'') = extractVideoId u"
      using segment_after_base [OF asm(3), of "''autoplay=1&muted=1&controls=1&rel=0&loop=0''"] by simp
    from r(1,2) 1 2 3 show ?thesis by blast
  qed
  have b: "\<exists>s'. hydrateTikTok i s = Normal s' \<and>
         map (\<lambda>el. src_string (src el)) (app_frames s') =
           map (\<lambda>el. src_string (src el)) (app_frames s) @
           [Some (''https://www.tiktok.com/embed/v2/video/'' @ v @
                  ''?lang=en-US&autoplay=1&controls=1&muted=1'')]"
    if asm: "i < length (cards s)" "i \<notin> hydratedTikToks s"
      "tiktokUrl (cards s ! i) = Some w" "match_video w = Some v"
      "find_first (has_class ''ttk__poster-img'') (children (cards s ! i)) \<noteq> None"
      "find_first (has_class ''ttk__poster'') (children (cards s ! i)) \<noteq> None"
      "find_first (has_class ''ttk__frame'') (children (cards s ! i)) \<noteq> None"
      "hasIntersectionObserver s"
  proof -
    obtain s' where "hydrateTikTok i s = Normal s'" "app_frames s' = app_frames s @ [buildIframe v]"
      using hydrateTikTok_frame_branch [OF asm] by blast
    then show ?thesis by (simp add: buildIframe_def)
  qed
  have c: "extractVideoId example_url = ''123456''"
    by (simp add: example_url_def extractVideoId_def)
  have d: "path_segment_after ''https://www.tiktok.com/embed/v2/''
     (''https://www.tiktok.com/embed/v2/video/'' @ v' @ ''?lang=en-US&autoplay=1&controls=1&muted=1'') = ''video''"
    by (simp add: path_segment_after_def)
  from a b c d match_examples(2) digits_path_safe [of d] show ?thesis by blast
qed

theorem embed_url_form_witness:
  "\<not> isLoaded (TikTokEmbed (example_container example_url)) \<and>
   url (TikTokEmbed (example_container example_url)) = Some example_url \<and>
   path_safe (extractVideoId example_url) \<and>
   (\<exists>el e'. load [] (TikTokEmbed (example_container example_url)) = Normal ([] @ [el], e') \<and>
      src_string (src el) =
        Some (''https://www.tiktok.com/embed/v2/'' @ extractVideoId example_url @
              ''?autoplay=1&muted=1&controls=1&rel=0&loop=0'')) \<and>
   extractVideoId example_url = ''123456'' \<and>
   ''123456'' \<noteq> [] \<and> list_all is_digit ''123456'' \<and> path_safe ''123456'' \<and>
   0 < length (cards (example_app example_url)) \<and>
   0 \<notin> hydratedTikToks (example_app example_url) \<and>
   tiktokUrl (cards (example_app example_url) ! 0) = Some example_url \<and>
   match_video example_url = Some ''123456'' \<and>
   find_first (has_class ''ttk__poster-img'') (children (cards (example_app example_url) ! 0)) \<noteq> None \<and>
   find_first (has_class ''ttk__poster'') (children (cards (example_app example_url) ! 0)) \<noteq> None \<and>
   find_first (has_class ''ttk__frame'') (children (cards (example_app example_url) ! 0)) \<noteq> None \<and>
   hasIntersectionObserver (example_app example_url) \<and>
   (\<exists>s'. hydrateTikTok 0 (example_app example_url) = Normal s' \<and>
      map (\<lambda>el. src_string (src el)) (app_frames s') =
        map (\<lambda>el. src_string (src el)) (app_frames (example_app example_url)) @
        [Some (''https://www.tiktok.com/embed/v2/video/'' @ ''123456'' @
               ''?lang=en-US&autoplay=1&controls=1&muted=1'')])"
proof -
  have h1: "\<not> isLoaded (TikTokEmbed (example_container example_url))"
    "url (TikTokEmbed (example_container example_url)) = Some example_url"
    by (simp_all add: TikTokEmbed_def example_container_def)
  have h2: "extractVideoId example_url = ''123456''"
    by (simp add: example_url_def extractVideoId_def)
  have h2': "''123456'' \<noteq> []" "list_all is_digit ''123456''"
    by (simp_all add: is_digit_def)
  note h3 = example_card_facts(1,2,3,4,5,6) [of example_url] match_examples(2)
    example_app_simps(4) [of example_url]
  note t = embed_url_form [where e = "TikTokEmbed (example_container example_url)" and u = example_url
      and h = "[]" and i = 0 and s = "example_app example_url" and w = example_url and v = "''123456''"
      and d = "''123456''"]
  have p: "path_safe ''123456''"
    using t [THEN conjunct2, THEN conjunct1] h2' by blast
  then have p': "path_safe (extractVideoId example_url)"
    using h2 by simp
  have a: "\<exists>el e'. load [] (TikTokEmbed (example_container example_url)) = Normal ([] @ [el], e') \<and>
      src_string (src el) =
        Some (''https://www.tiktok.com/embed/v2/'' @ extractVideoId example_url @
              ''?autoplay=1&muted=1&controls=1&rel=0&loop=0'')"
    using t [THEN conjunct1] h1 p' by blast
  have b: "\<exists>s'. hydrateTikTok 0 (example_app example_url) = Normal s' \<and>
      map (\<lambda>el. src_string (src el)) (app_frames s') =
        map (\<lambda>el. src_string (src el)) (app_frames (example_app example_url)) @
        [Some (''https://www.tiktok.com/embed/v2/video/'' @ ''123456'' @
               ''?lang=en-US&autoplay=1&controls=1&muted=1'')]"
    using t [THEN conjunct2, THEN conjunct2, THEN conjunct1] h3 by blast
  from h1 h2 h2' p p' h3 a b show ?thesis by blast
qed

subsection \<open>One embed when hydrated\<close>

text \<open>
  Claim C1, as the claim states it, fails: a URL may contain a well-formed numeric
  identifier (the pattern of \<open>hydrateTikTok\<close> finds it) while its last segment is empty,
  and then \<open>load\<close> returns without hydrating and the container holds no iframe.
\<close>

theorem load_trailing_slash_counterexample:
  "match_video slash_url = Some ''123456'' \<and>
   \<not> isLoaded (snd (state_of (load [] (TikTokEmbed (example_container slash_url))))) \<and>
   iframes_of (children (container (snd (state_of (load [] (TikTokEmbed (example_container slash_url))))))) = []"
  by (simp add: slash_url_def is_digit_def example_container_def page_poster_def
       TikTokEmbed_def init_def load_def extractVideoId_def Let_def iframes_of_def)

text \<open>
  Claim C1, amended. For every embed that is not loaded and whose URL has a non-empty last
  \<open>/\<close>-separated segment before any \<open>?\<close>, \<open>load\<close> returns with the embed loaded, a new
  iframe on the heap, and exactly that iframe in the container. This covers every URL
  that ends in \<open>/\<close> and a non-empty run of digits, and every URL that ends in such a run
  followed by \<open>?\<close> and a query string without \<open>/\<close>.
  As an invariant over every sequence of \<open>load\<close> and \<open>unload\<close> calls on an embed
  constructed on a container without iframes, whose title and poster URL are
  \<open>attr_safe\<close> (so that the template of \<open>unload\<close> is parsed as written): a loaded embed refers to one existing
  iframe and its container holds exactly that one; an embed that is not loaded refers to
  none and its container holds none. For \<open>hydrateTikTok\<close> the claim holds for every URL
  that contains \<open>video/\<close> followed by digits: run for the first time on a card that has
  its poster button, poster image and frame and holds no iframe, on a page with
  \<open>IntersectionObserver\<close>, it marks the card and leaves exactly one new iframe in it.
\<close>

theorem load_hydrates_with_one_embed:
  "(\<not> isLoaded e \<and> url e = Some u \<and> extractVideoId u \<noteq> [] \<longrightarrow>
      (\<exists>el e'. load h e = Normal (h @ [el], e') \<and> isLoaded e' \<and> iframe e' = Some (length h) \<and>
         iframes_of (children (container e')) = [length h])) \<and>
   (d \<noteq> [] \<and> (\<forall>x\<in>set d. is_digit x) \<longrightarrow>
      extractVideoId (p @ CHR ''/'' # d) = d \<and>
      (CHR ''/'' \<notin> set q \<longrightarrow> extractVideoId (p @ CHR ''/'' # d @ CHR ''?'' # q) = d)) \<and>
   (iframes_of (children c) = [] \<and>
    attr_safe (or_else (dataTitle c) ''TikTok video'') \<and> attr_safe (js_str (poster c)) \<longrightarrow>
      (case calls ms (h0, TikTokEmbed c) of
         (h', e') \<Rightarrow>
           if isLoaded e'
           then (\<exists>r. iframe e' = Some r \<and> r < length h' \<and> iframes_of (children (container e')) = [r])
           else iframe e' = None \<and> iframes_of (children (container e')) = [])) \<and>
   (i < length (cards s) \<and> i \<notin> hydratedTikToks s \<and>
    tiktokUrl (cards s ! i) = Some w \<and> match_video w = Some v \<and>
    find_first (has_class ''ttk__poster-img'') (children (cards s ! i)) \<noteq> None \<and>
    find_first (has_class ''ttk__poster'') (children (cards s ! i)) \<noteq> None \<and>
    find_first (has_class ''ttk__frame'') (children (cards s ! i)) \<noteq> None \<and>
    hasIntersectionObserver s \<and> iframes_of (children (cards s ! i)) = [] \<longrightarrow>
      (\<exists>s'. hydrateTikTok i s = Normal s' \<and> i \<in> hydratedTikToks s' \<and>
         iframes_of (children (cards s' ! i)) = [length (app_frames s)] \<and>
         length (app_frames s') = Suc (length (app_frames s))))"
proof -
  have a: "\<exists>el e'. load h e = Normal (h @ [el], e') \<and> isLoaded e' \<and> iframe e' = Some (length h) \<and>
         iframes_of (children (container e')) = [length h]"
    if asm: "\<not> isLoaded e" "url e = Some u" "extractVideoId u \<noteq> []"
  proof -
    obtain el e' where "load h e = Normal (h @ [el], e')" "isLoaded e'" "iframe e' = Some (length h)"
      "children (container e') = [frameWrapper (length h)]"
      using load_fresh [OF asm, of h] by blast
    then show ?thesis by auto
  qed
  have b: "extractVideoId (p @ CHR ''/'' # d) = d \<and>
      (CHR ''/'' \<notin> set q \<longrightarrow> extractVideoId (p @ CHR ''/'' # d @ CHR ''?'' # q) = d)"
    if dig: "\<forall>x\<in>set d. is_digit x"
    using digits_no_sep [OF dig] by (simp add: extractVideoId_tail extractVideoId_tail_query)
  have c: "case calls ms (h0, TikTokEmbed c) of
         (h', e') \<Rightarrow>
           if isLoaded e'
           then (\<exists>r. iframe e' = Some r \<and> r < length h' \<and> iframes_of (children (container e')) = [r])
           else iframe e' = None \<and> iframes_of (children (container e')) = []"
    if noframe: "iframes_of (children c) = []"
  proof -
    obtain h' e' where s: "calls ms (h0, TikTokEmbed c) = (h', e')"
      by (cases "calls ms (h0, TikTokEmbed c)") auto
    have "linked (h', e')"
      using linked_calls [OF linked_new, of ms h0 c] s by simp
    moreover have "embed_count_ok (h', e')"
      using count_calls [OF count_new [OF noframe], of ms h0] s by simp
    ultimately show ?thesis
      using s by (auto simp: linked_def embed_count_ok_def split: option.splits if_splits)
  qed
  have d: "\<exists>s'. hydrateTikTok i s = Normal s' \<and> i \<in> hydratedTikToks s' \<and>
         iframes_of (children (cards s' ! i)) = [length (app_frames s)] \<and>
         length (app_frames s') = Suc (length (app_frames s))"
    if asm: "i < length (cards s)" "i \<notin> hydratedTikToks s"
      "tiktokUrl (cards s ! i) = Some w" "match_video w = Some v"
      "find_first (has_class ''ttk__poster-img'') (children (cards s ! i)) \<noteq> None"
      "find_first (has_class ''ttk__poster'') (children (cards s ! i)) \<noteq> None"
      "find_first (has_class ''ttk__frame'') (children (cards s ! i)) \<noteq> None"
      "hasIntersectionObserver s" and empty: "iframes_of (children (cards s ! i)) = []"
  proof -
    obtain s' where "hydrateTikTok i s = Normal s'" "i \<in> hydratedTikToks s'"
      "app_frames s' = app_frames s @ [buildIframe v]"
      "iframes_of (children (cards s ! i)) = [] \<longrightarrow>
         iframes_of (children (cards s' ! i)) = [length (app_frames s)]"
      using hydrateTikTok_frame_branch [OF asm] by blast
    then show ?thesis using empty by auto
  qed
  have c': "iframes_of (children c) = [] \<and>
    attr_safe (or_else (dataTitle c) ''TikTok video'') \<and> attr_safe (js_str (poster c)) \<longrightarrow>
      (case calls ms (h0, TikTokEmbed c) of
         (h', e') \<Rightarrow>
           if isLoaded e'
           then (\<exists>r. iframe e' = Some r \<and> r < length h' \<and> iframes_of (children (container e')) = [r])
           else iframe e' = None \<and> iframes_of (children (container e')) = [])"
  proof (intro impI, elim conjE)
    assume "iframes_of (children c) = []"
    then show "case calls ms (h0, TikTokEmbed c) of
         (h', e') \<Rightarrow>
           if isLoaded e'
           then (\<exists>r. iframe e' = Some r \<and> r < length h' \<and> iframes_of (children (container e')) = [r])
           else iframe e' = None \<and> iframes_of (children (container e')) = []"
      by (rule c)
  qed
  from a b c' d show ?thesis by blast
qed

theorem load_hydrates_with_one_embed_witness:
  "\<not> isLoaded (TikTokEmbed (example_container example_url)) \<and>
   url (TikTokEmbed (example_container example_url)) = Some example_url \<and>
   extractVideoId example_url \<noteq> [] \<and>
   isLoaded (snd (state_of (load [] (TikTokEmbed (example_container example_url))))) \<and>
   iframes_of (children (container (snd (state_of (load [] (TikTokEmbed (example_container example_url))))))) = [0] \<and>
   ''123456'' \<noteq> [] \<and> list_all is_digit ''123456'' \<and>
   extractVideoId (''https://example.com/video'' @ CHR ''/'' # ''123456'') = ''123456'' \<and>
   CHR ''/'' \<notin> set ''lang=en'' \<and>
   extractVideoId (''https://example.com/video'' @ CHR ''/'' # ''123456'' @ CHR ''?'' # ''lang=en'') = ''123456'' \<and>
   iframes_of (children (example_container example_url)) = [] \<and>
   attr_safe (or_else (dataTitle (example_container example_url)) ''TikTok video'') \<and>
   attr_safe (js_str (poster (example_container example_url))) \<and>
   (case calls [Load, Unload, Load] ([], TikTokEmbed (example_container example_url)) of
      (h', e') \<Rightarrow>
        if isLoaded e'
        then (\<exists>r. iframe e' = Some r \<and> r < length h' \<and> iframes_of (children (container e')) = [r])
        else iframe e' = None \<and> iframes_of (children (container e')) = []) \<and>
   0 < length (cards (example_app slash_url)) \<and>
   0 \<notin> hydratedTikToks (example_app slash_url) \<and>
   tiktokUrl (cards (example_app slash_url) ! 0) = Some slash_url \<and>
   match_video slash_url = Some ''123456'' \<and>
   find_first (has_class ''ttk__poster-img'') (children (cards (example_app slash_url) ! 0)) \<noteq> None \<and>
   find_first (has_class ''ttk__poster'') (children (cards (example_app slash_url) ! 0)) \<noteq> None \<and>
   find_first (has_class ''ttk__frame'') (children (cards (example_app slash_url) ! 0)) \<noteq> None \<and>
   hasIntersectionObserver (example_app slash_url) \<and>
   iframes_of (children (cards (example_app slash_url) ! 0)) = [] \<and>
   (\<exists>s'. hydrateTikTok 0 (example_app slash_url) = Normal s' \<and> 0 \<in> hydratedTikToks s' \<and>
      iframes_of (children (cards s' ! 0)) = [length (app_frames (example_app slash_url))])"
proof -
  have h1: "\<not> isLoaded (TikTokEmbed (example_container example_url))"
    "url (TikTokEmbed (example_container example_url)) = Some example_url"
    by (simp_all add: TikTokEmbed_def example_container_def)
  have h2: "extractVideoId example_url \<noteq> []"
    by (simp add: example_url_def extractVideoId_def)
  have h3: "''123456'' \<noteq> []" "\<forall>x\<in>set ''123456''. is_digit x" "CHR ''/'' \<notin> set ''lang=en''"
    by (simp_all add: is_digit_def)
  have h3': "list_all is_digit ''123456''"
    by (simp add: is_digit_def)
  have h4: "iframes_of (children (example_container example_url)) = []"
    by (simp add: example_container_def page_poster_def iframes_of_def)
  have h4': "attr_safe (or_else (dataTitle (example_container example_url)) ''TikTok video'')"
    "attr_safe (js_str (poster (example_container example_url)))"
    using attr_safe_examples by (simp_all add: example_container_def)
  have h5: "match_video slash_url = Some ''123456''"
    by (simp add: slash_url_def is_digit_def)
  note h6 = example_card_facts(1,2,3,4,5,6,8) [of slash_url] example_app_simps(4) [of slash_url]
  note t = load_hydrates_with_one_embed [where e = "TikTokEmbed (example_container example_url)"
        and u = example_url and h = "[]" and d = "''123456''" and p = "''https://example.com/video''"
        and q = "''lang=en''" and c = "example_container example_url" and ms = "[Load, Unload, Load]"
        and ?h0.0 = "[]" and i = 0 and s = "example_app slash_url" and w = slash_url
        and v = "''123456''"]
  have a: "isLoaded (snd (state_of (load [] (TikTokEmbed (example_container example_url))))) \<and>
   iframes_of (children (container (snd (state_of (load [] (TikTokEmbed (example_container example_url))))))) = [0]"
    using t [THEN conjunct1] h1 h2 by auto
  have b: "extractVideoId (''https://example.com/video'' @ CHR ''/'' # ''123456'') = ''123456'' \<and>
   extractVideoId (''https://example.com/video'' @ CHR ''/'' # ''123456'' @ CHR ''?'' # ''lang=en'') = ''123456''"
    using t [THEN conjunct2, THEN conjunct1] h3 by blast
  have c: "case calls [Load, Unload, Load] ([], TikTokEmbed (example_container example_url)) of
      (h', e') \<Rightarrow>
        if isLoaded e'
        then (\<exists>r. iframe e' = Some r \<and> r < length h' \<and> iframes_of (children (container e')) = [r])
        else iframe e' = None \<and> iframes_of (children (container e')) = []"
    by (rule mp [OF t [THEN conjunct2, THEN conjunct2, THEN conjunct1] conjI [OF h4 conjI [OF h4']]])
  have d: "\<exists>s'. hydrateTikTok 0 (example_app slash_url) = Normal s' \<and> 0 \<in> hydratedTikToks s' \<and>
      iframes_of (children (cards s' ! 0)) = [length (app_frames (example_app slash_url))]"
    using t [THEN conjunct2, THEN conjunct2, THEN conjunct2] h5 h6 by auto
  from h1 h2 h3 h3' h4 h4' h5 h6 a b c d show ?thesis by blast
qed


subsection \<open>The fallback on a load error\<close>

lemma hrefs_errorMsg [simp]: "hrefs_of [errorMsg a b u] = [js_str u]"
  by (simp add: hrefs_of_def errorMsg_def errorMarkup_def)

lemma iframes_errorMsg [simp]: "iframes_of [errorMsg a b u] = []"
  by (simp add: iframes_of_def errorMsg_def errorMarkup_def)

lemma handleLoadError_without_press_card:
  "pressCard (container e) = NoPressCard \<Longrightarrow> handleLoadError e = Thrown TypeError e"
  by (simp add: handleLoadError_def)

lemma hydrated_example_simps:
  "pressCard (container (snd hydrated_example)) = PressCard (Some ''none'')"
  "0 < length (fst hydrated_example)"
  "errorHandler (fst hydrated_example ! 0)"
  "url (snd hydrated_example) = Some example_url"
  by (simp_all add: hydrated_example_def example_url_def example_container_def page_poster_def
       TikTokEmbed_def init_def load_def extractVideoId_def Let_def createIframe_def)

lemma handleLoadError_with_press_card:
  "pressCard (container e) = PressCard l \<Longrightarrow>
     handleLoadError e =
       Normal (e\<lparr>container := (container e)
                  \<lparr>pressCard := PressCard (map_option (\<lambda>d. ''block'') l),
                   children := [errorMsg ''        '' ''      '' (url e)]\<rparr>\<rparr>)"
  by (simp add: handleLoadError_def)

lemma orphan_example_simps:
  "isLoaded (snd orphan_example)" "iframe (snd orphan_example) = Some 0"
  "length (fst orphan_example) = 1" "errorHandler (fst orphan_example ! 0)"
  "pressCard (container (snd orphan_example)) = NoPressCard"
  "url (snd orphan_example) = Some ''https://example.com/video/123456''"
  "children (container (snd orphan_example)) =
     [Element ''div'' [(''class'', ''ttk__frame'')] [] [Iframe 0]]"
  by (simp_all add: orphan_example_def orphan_container_def example_container_def page_poster_def
       TikTokEmbed_def init_def load_def extractVideoId_def Let_def createIframe_def frameWrapper_def)

text \<open>
  Claim C8: on a load error of the embed the container is replaced by a fallback with a
  link to the source URL, the error does not propagate, and the Placeholder is never
  left half-loaded. The optimised script does not do this for a container that no
  \<open>.press-card\<close> encloses. There \<open>handleLoadError\<close> throws on the null result of
  \<open>closest\<close> before it renders anything, so the error listener of the iframe ends with
  an uncaught \<open>TypeError\<close>: the container still holds the frame wrapper with the failed
  iframe and no link, the embed stays loaded, and \<open>video_load_error\<close> is not reported.
  On the same embed \<open>handleLoadError\<close> of the orchestrated application renders the
  fallback with the link, as the optimised script does for a container inside a press
  card.
\<close>

theorem load_error_without_press_card:
  "isLoaded (snd orphan_example) \<and> iframe (snd orphan_example) = Some 0 \<and>
   errorHandler (fst orphan_example ! 0) \<and>
   pressCard (container (snd orphan_example)) = NoPressCard \<and>
   handleLoadError (snd orphan_example) = Thrown TypeError (snd orphan_example) \<and>
   errorListener 0 orphan_example =
     Thrown TypeError
       (((fst orphan_example)[0 := (fst orphan_example ! 0)\<lparr>errorHandler := False\<rparr>], snd orphan_example), []) \<and>
   children (container (snd orphan_example)) =
     [Element ''div'' [(''class'', ''ttk__frame'')] [] [Iframe 0]] \<and>
   iframes_of (children (container (snd orphan_example))) = [0] \<and>
   hrefs_of (children (container (snd orphan_example))) = [] \<and>
   children (container (handleLoadError_app (snd orphan_example))) =
     [Element ''div'' [(''class'', ''ttk__error'')] []
        [Text ''\<newline>      '',
         Element ''p'' [] [] [Text ''Video unavailable''],
         Text ''\<newline>      '',
         Element ''a'' [(''href'', ''https://example.com/video/123456''), (''target'', ''_blank''),
                        (''rel'', ''noopener'')] []
           [Text (''Watch on TikTok '' @ [CHR 0xE2, CHR 0x86, CHR 0x92])],
         Text ''\<newline>    '']] \<and>
   children (container (state_of (handleLoadError (snd hydrated_example)))) =
     [Element ''div'' [(''class'', ''ttk__error'')] []
        [Text ''\<newline>        '',
         Element ''p'' [] [] [Text ''Video unavailable''],
         Text ''\<newline>        '',
         Element ''a'' [(''href'', ''https://example.com/video/123456''), (''target'', ''_blank''),
                        (''rel'', ''noopener'')] []
           [Text (''Watch on TikTok '' @ [CHR 0xE2, CHR 0x86, CHR 0x92])],
         Text ''\<newline>      '']]"
proof -
  obtain h e where he: "orphan_example = (h, e)"
    by (cases orphan_example) auto
  have f: "isLoaded e" "iframe e = Some 0" "length h = 1" "errorHandler (h ! 0)"
    "pressCard (container e) = NoPressCard" "url e = Some ''https://example.com/video/123456''"
    "children (container e) = [Element ''div'' [(''class'', ''ttk__frame'')] [] [Iframe 0]]"
    using orphan_example_simps unfolding he by simp_all
  have t: "handleLoadError e = Thrown TypeError e"
    using f(5) by (simp add: handleLoadError_def)
  have "0 < length h" using f(3) by simp
  then have l: "errorListener 0 (h, e) = Thrown TypeError ((h[0 := (h ! 0)\<lparr>errorHandler := False\<rparr>], e), [])"
    using f(4) t by (simp add: errorListener_def)
  have c: "iframes_of (children (container e)) = [0]" "hrefs_of (children (container e)) = []"
    using f(7) by (simp_all add: iframes_of_def hrefs_of_def)
  have a: "children (container (handleLoadError_app e)) =
     [Element ''div'' [(''class'', ''ttk__error'')] []
        [Text ''\<newline>      '',
         Element ''p'' [] [] [Text ''Video unavailable''],
         Text ''\<newline>      '',
         Element ''a'' [(''href'', ''https://example.com/video/123456''), (''target'', ''_blank''),
                        (''rel'', ''noopener'')] []
           [Text (''Watch on TikTok '' @ [CHR 0xE2, CHR 0x86, CHR 0x92])],
         Text ''\<newline>    '']]"
    using f(6) by (simp add: handleLoadError_app_def errorMsg_def errorMarkup_def arrow_glyph_def)
  have b: "children (container (state_of (handleLoadError (snd hydrated_example)))) =
     [Element ''div'' [(''class'', ''ttk__error'')] []
        [Text ''\<newline>        '',
         Element ''p'' [] [] [Text ''Video unavailable''],
         Text ''\<newline>        '',
         Element ''a'' [(''href'', ''https://example.com/video/123456''), (''target'', ''_blank''),
                        (''rel'', ''noopener'')] []
           [Text (''Watch on TikTok '' @ [CHR 0xE2, CHR 0x86, CHR 0x92])],
         Text ''\<newline>      '']]"
    using handleLoadError_with_press_card [OF hydrated_example_simps(1)] hydrated_example_simps(4)
    by (simp add: errorMsg_def errorMarkup_def arrow_glyph_def example_url_def)
  show ?thesis
    unfolding he using f t l c a b by simp
qed

subsection \<open>Set-up without an observer or with reduced motion\<close>

lemma load_keeps_url: "url (snd (state_of (load h e))) = url e"
  by (simp add: load_def Let_def split: option.splits)

lemma load_leaves_loaded:
  "url e = Some u \<Longrightarrow> extractVideoId u \<noteq> [] \<Longrightarrow> isLoaded (snd (state_of (load h e)))"
  by (simp add: load_def Let_def)

lemma TikTokEmbed_fields [simp]:
  "url (TikTokEmbed c) = tiktokUrl c" "\<not> isLoaded (TikTokEmbed c)" "iframe (TikTokEmbed c) = None"
  by (simp_all add: TikTokEmbed_def)

lemma lazy_step_length [simp]: "length (embeds (lazy_step ev p)) = length (embeds p)"
  by (cases ev) (auto simp: with_embed_def split: completion.splits)

lemma timeout_step:
  assumes i: "i < length (embeds p)"
    and u: "url (embeds p ! i) = Some u" "extractVideoId u \<noteq> []"
    and pend: "i \<in> set (timers p) \<or> isLoaded (embeds p ! i)"
    and ev: "is_timeout ev"
  shows "url (embeds (lazy_step ev p) ! i) = Some u \<and>
         (i \<in> set (timers (lazy_step ev p)) \<or> isLoaded (embeds (lazy_step ev p) ! i)) \<and>
         (ev = Timeout i \<or> isLoaded (embeds p ! i) \<longrightarrow> isLoaded (embeds (lazy_step ev p) ! i))"
proof -
  obtain j where j: "ev = Timeout j" using ev by (cases ev) auto
  show ?thesis
  proof (cases "j \<in> set (timers p) \<and> j < length (embeds p)")
    case False
    then have "lazy_step ev p = p" using j by auto
    then show ?thesis using u pend j False i by auto
  next
    case True
    let ?s = "state_of (load (page_frames p) (embeds p ! j))"
    have step: "lazy_step ev p = with_embed j ?s (p\<lparr>timers := remove1 j (timers p)\<rparr>)"
      using True j by simp
    show ?thesis
    proof (cases "j = i")
      case True
      have "isLoaded (snd ?s)" "url (snd ?s) = Some u"
        using u True by (simp_all add: load_leaves_loaded load_keeps_url)
      then show ?thesis using step i True by (simp add: with_embed_def)
    next
      case False
      have "embeds (lazy_step ev p) ! i = embeds p ! i"
        using step False by (simp add: with_embed_def)
      moreover have "i \<in> set (timers (lazy_step ev p)) \<longleftrightarrow> i \<in> set (timers p)"
        using step False by (simp add: with_embed_def)
      ultimately show ?thesis using u pend j False by auto
    qed
  qed
qed

lemma timeouts_run:
  assumes "i < length (embeds p)"
    and "url (embeds p ! i) = Some u" "extractVideoId u \<noteq> []"
    and "i \<in> set (timers p) \<or> isLoaded (embeds p ! i)"
    and "\<forall>ev\<in>set evs. is_timeout ev"
    and "Timeout i \<in> set evs \<or> isLoaded (embeds p ! i)"
  shows "isLoaded (embeds (lazy_run evs p) ! i)"
  using assms
proof (induction evs arbitrary: p)
  case Nil
  then show ?case by simp
next
  case (Cons ev evs)
  have ev: "is_timeout ev" using Cons.prems(5) by simp
  note st = timeout_step [OF Cons.prems(1,2,3,4) ev]
  have a: "i < length (embeds (lazy_step ev p))" using Cons.prems(1) by simp
  have b: "url (embeds (lazy_step ev p) ! i) = Some u" using st by blast
  have c: "i \<in> set (timers (lazy_step ev p)) \<or> isLoaded (embeds (lazy_step ev p) ! i)"
    using st by blast
  have d: "\<forall>ev\<in>set evs. is_timeout ev" using Cons.prems(5) by simp
  have e: "Timeout i \<in> set evs \<or> isLoaded (embeds (lazy_step ev p) ! i)"
    using st Cons.prems(6) by auto
  have "isLoaded (embeds (lazy_run evs (lazy_step ev p)) ! i)"
    by (rule Cons.IH [OF a b Cons.prems(3) c d e])
  then show ?case by simp
qed

lemma idle_lazy_step:
  assumes "observedContainers p = {}" "timers p = []" "\<forall>e\<in>set (embeds p). \<not> isLoaded e"
    and "\<not> is_user_event ev"
  shows "lazy_step ev p = p"
proof (cases ev)
  case (UnloadCall i)
  show ?thesis
  proof (cases "i < length (embeds p)")
    case True
    then have "\<not> isLoaded (embeds p ! i)" using assms(3) by simp
    then show ?thesis using UnloadCall True by (simp add: unload_def with_embed_def)
  next
    case False
    then show ?thesis using UnloadCall by simp
  qed
qed (use assms in auto)

lemma idle_lazy_run:
  assumes "observedContainers p = {}" "timers p = []" "\<forall>e\<in>set (embeds p). \<not> isLoaded e"
    and "\<forall>ev\<in>set evs. \<not> is_user_event ev"
  shows "lazy_run evs p = p"
  using assms by (induction evs) (simp_all add: idle_lazy_step)

lemma idle_orch_step:
  assumes "observedSlots p = {}" "\<not> is_click ev"
  shows "orch_step ev p = p"
  using assms by (cases ev) auto

lemma idle_orch_run:
  assumes "observedSlots p = {}" "\<forall>ev\<in>set evs. \<not> is_click ev"
  shows "orch_run evs p = p"
  using assms by (induction evs) (simp_all add: idle_orch_step)

text \<open>
  Claim C5, as the claim states it, fails: with the motion-reduction preference set,
  \<open>setupLazyLoading\<close> only constructs the embeds, and a container with a good URL is
  not loaded after set-up, nor after a timer or an observer report; \<open>setupTikTokEmbeds\<close>
  does the same with the preference set and also without \<open>IntersectionObserver\<close>.
\<close>

theorem reduced_motion_counterexample:
  "extractVideoId example_url \<noteq> [] \<and>
   \<not> isLoaded (embeds (lazy_run [Timeout 0, Intersection 0 True]
        (setupLazyLoading True True [example_container example_url])) ! 0) \<and>
   \<not> isLoaded (embeds (lazy_run [Timeout 0, Intersection 0 True]
        (setupLazyLoading True False [example_container example_url])) ! 0) \<and>
   \<not> slot_loaded (slots (orch_run [Visibility 0 True]
        (setupTikTokEmbeds True True [example_container example_url])) ! 0) \<and>
   \<not> slot_loaded (slots (orch_run [Visibility 0 True]
        (setupTikTokEmbeds False False [example_container example_url])) ! 0)"
  by (simp add: example_url_def extractVideoId_def setupLazyLoading_def setupTikTokEmbeds_def)

text \<open>
  Claim C5, amended. In \<open>setupLazyLoading\<close>, without \<open>IntersectionObserver\<close> and without
  the motion-reduction preference, every Placeholder whose URL has a non-empty last
  segment is hydrated once its one-second timer has fired, with no visibility event and
  no user action. With the motion-reduction preference set in \<open>setupLazyLoading\<close>, and
  with the preference set or without \<open>IntersectionObserver\<close> in \<open>setupTikTokEmbeds\<close>, the
  embeds are constructed only: nothing is observed, no timer is pending, no Placeholder
  is hydrated, and nothing but a click on a poster changes the page. The inline script,
  when \<open>IntersectionObserver\<close> is missing, at once marks its element with
  \<open>data-hydrated\<close> and creates an iframe for the identifier, which it does not insert:
  the content of the element stays as it was. With the preference set it does the same
  on the first report of its observer, intersecting or not.
\<close>

theorem lazy_fallback_behaviour:
  "(i < length cs \<and> tiktokUrl (cs ! i) = Some u \<and> extractVideoId u \<noteq> [] \<and>
    (\<forall>ev\<in>set evs. is_timeout ev) \<and> Timeout i \<in> set evs \<longrightarrow>
      isLoaded (embeds (lazy_run evs (setupLazyLoading False False cs)) ! i)) \<and>
   ((\<forall>ev\<in>set evs'. \<not> is_user_event ev) \<longrightarrow>
      lazy_run evs' (setupLazyLoading True sio cs) = setupLazyLoading True sio cs \<and>
      length (embeds (setupLazyLoading True sio cs)) = length cs \<and>
      (\<forall>e\<in>set (embeds (setupLazyLoading True sio cs)). \<not> isLoaded e)) \<and>
   ((prm \<or> \<not> sio') \<and> (\<forall>ev\<in>set oevs. \<not> is_click ev) \<longrightarrow>
      orch_run oevs (setupTikTokEmbeds prm sio' cs) = setupTikTokEmbeds prm sio' cs \<and>
      length (slots (setupTikTokEmbeds prm sio' cs)) = length cs \<and>
      (\<forall>sl\<in>set (slots (setupTikTokEmbeds prm sio' cs)). \<not> slot_loaded sl)) \<and>
   (inline_start False (Some c) = Some st \<longrightarrow>
      hydrated (el st) = Some ''1'' \<and> \<not> observing st \<and>
      children (el st) = children c \<and>
      match_video (or_else (tiktokUrl c) []) = Some (videoId st) \<and>
      (hydrated c \<noteq> Some ''1'' \<longrightarrow>
         map (\<lambda>x. src_string (src x)) (inline_frames st) =
           [Some (''https://www.tiktok.com/embed/v2/'' @ videoId st)])) \<and>
   (observing st' \<longrightarrow>
      hydrated (el (inline_deliver True (b # es) st')) = Some ''1'' \<and>
      \<not> observing (inline_deliver True (b # es) st') \<and>
      children (el (inline_deliver True (b # es) st')) = children (el st') \<and>
      (hydrated (el st') \<noteq> Some ''1'' \<longrightarrow>
         map (\<lambda>x. src_string (src x)) (inline_frames (inline_deliver True (b # es) st')) =
           map (\<lambda>x. src_string (src x)) (inline_frames st') @
           [Some (''https://www.tiktok.com/embed/v2/'' @ videoId st')]))"
proof -
  have a: "isLoaded (embeds (lazy_run evs (setupLazyLoading False False cs)) ! i)"
    if asm: "i < length cs" "tiktokUrl (cs ! i) = Some u" "extractVideoId u \<noteq> []"
      "\<forall>ev\<in>set evs. is_timeout ev" "Timeout i \<in> set evs"
  proof -
    let ?p = "setupLazyLoading False False cs"
    have ne: "cs \<noteq> []" using asm(1) by auto
    have p: "embeds ?p = map TikTokEmbed cs" "timers ?p = [0..<length cs]"
      using ne by (simp_all add: setupLazyLoading_def)
    have 1: "i < length (embeds ?p)" using asm(1) p by simp
    have 2: "url (embeds ?p ! i) = Some u" using asm(1,2) p by simp
    have 3: "i \<in> set (timers ?p) \<or> isLoaded (embeds ?p ! i)" using asm(1) p by simp
    show ?thesis
      by (rule timeouts_run [OF 1 2 asm(3) 3 asm(4)]) (simp add: asm(5))
  qed
  have b: "lazy_run evs' (setupLazyLoading True sio cs) = setupLazyLoading True sio cs \<and>
      length (embeds (setupLazyLoading True sio cs)) = length cs \<and>
      (\<forall>e\<in>set (embeds (setupLazyLoading True sio cs)). \<not> isLoaded e)"
    if asm: "\<forall>ev\<in>set evs'. \<not> is_user_event ev"
  proof -
    let ?p = "setupLazyLoading True sio cs"
    have p: "observedContainers ?p = {}" "timers ?p = []" "\<forall>e\<in>set (embeds ?p). \<not> isLoaded e"
      "length (embeds ?p) = length cs"
      by (auto simp: setupLazyLoading_def)
    show ?thesis using idle_lazy_run [OF p(1,2,3) asm] p by simp
  qed
  have c: "orch_run oevs (setupTikTokEmbeds prm sio' cs) = setupTikTokEmbeds prm sio' cs \<and>
      length (slots (setupTikTokEmbeds prm sio' cs)) = length cs \<and>
      (\<forall>sl\<in>set (slots (setupTikTokEmbeds prm sio' cs)). \<not> slot_loaded sl)"
    if asm: "prm \<or> \<not> sio'" "\<forall>ev\<in>set oevs. \<not> is_click ev"
  proof -
    let ?p = "setupTikTokEmbeds prm sio' cs"
    have p: "observedSlots ?p = {}" "length (slots ?p) = length cs"
      "\<forall>sl\<in>set (slots ?p). \<not> slot_loaded sl"
      using asm(1) by (auto simp: setupTikTokEmbeds_def)
    show ?thesis using idle_orch_run [OF p(1) asm(2)] p by simp
  qed
  have d: "hydrated (el st) = Some ''1'' \<and> \<not> observing st \<and>
      children (el st) = children c \<and>
      match_video (or_else (tiktokUrl c) []) = Some (videoId st) \<and>
      (hydrated c \<noteq> Some ''1'' \<longrightarrow>
         map (\<lambda>x. src_string (src x)) (inline_frames st) =
           [Some (''https://www.tiktok.com/embed/v2/'' @ videoId st)])"
    if "inline_start False (Some c) = Some st"
    using that
    by (auto simp: inline_start_def hydrate_def embed_base_def split: option.splits if_splits)
  have e: "hydrated (el (inline_deliver True (b # es) st')) = Some ''1'' \<and>
      \<not> observing (inline_deliver True (b # es) st') \<and>
      children (el (inline_deliver True (b # es) st')) = children (el st') \<and>
      (hydrated (el st') \<noteq> Some ''1'' \<longrightarrow>
         map (\<lambda>x. src_string (src x)) (inline_frames (inline_deliver True (b # es) st')) =
           map (\<lambda>x. src_string (src x)) (inline_frames st') @
           [Some (''https://www.tiktok.com/embed/v2/'' @ videoId st')])"
    if "observing st'"
    using that by (auto simp: inline_deliver_def hydrate_def embed_base_def split: if_splits)
  from a b c d e show ?thesis by blast
qed

theorem lazy_fallback_behaviour_witness:
  "0 < length [example_container example_url] \<and>
   tiktokUrl ([example_container example_url] ! 0) = Some example_url \<and>
   extractVideoId example_url \<noteq> [] \<and>
   list_all is_timeout [Timeout 0] \<and> Timeout 0 \<in> set [Timeout 0] \<and>
   isLoaded (embeds (lazy_run [Timeout 0] (setupLazyLoading False False [example_container example_url])) ! 0) \<and>
   list_all (\<lambda>ev. \<not> is_user_event ev) [Intersection 0 True, Timeout 0] \<and>
   lazy_run [Intersection 0 True, Timeout 0] (setupLazyLoading True True [example_container example_url]) =
     setupLazyLoading True True [example_container example_url] \<and>
   list_all (\<lambda>ev. \<not> is_click ev) [Visibility 0 True] \<and>
   orch_run [Visibility 0 True] (setupTikTokEmbeds False False [example_container example_url]) =
     setupTikTokEmbeds False False [example_container example_url] \<and>
   hydrated (example_card example_url) \<noteq> Some ''1'' \<and>
   (\<exists>st. inline_start False (Some (example_card example_url)) = Some st \<and>
      hydrated (el st) = Some ''1'' \<and> children (el st) = children (example_card example_url) \<and>
      map (\<lambda>x. src_string (src x)) (inline_frames st) =
        [Some (''https://www.tiktok.com/embed/v2/'' @ videoId st)] \<and>
      videoId st = ''123456'') \<and>
   (\<exists>st. inline_start True (Some (example_card example_url)) = Some st \<and> observing st \<and>
      hydrated (el (inline_deliver True [False] st)) = Some ''1'' \<and>
      children (el (inline_deliver True [False] st)) = children (el st))"
proof -
  have h1: "0 < length [example_container example_url]"
    "tiktokUrl ([example_container example_url] ! 0) = Some example_url"
    by (simp_all add: example_container_def)
  have h2: "extractVideoId example_url \<noteq> []"
    by (simp add: example_url_def extractVideoId_def)
  have h3: "\<forall>ev\<in>set [Timeout 0]. is_timeout ev" "Timeout 0 \<in> set [Timeout 0]"
    "\<forall>ev\<in>set [Intersection 0 True, Timeout 0]. \<not> is_user_event ev"
    "\<forall>ev\<in>set [Visibility 0 True]. \<not> is_click ev"
    by simp_all
  have h4: "False \<or> \<not> False" by simp
  have h5: "hydrated (example_card example_url) \<noteq> Some ''1''"
    "match_video (or_else (tiktokUrl (example_card example_url)) []) = Some ''123456''"
    by (simp_all add: example_card_def match_examples)
  obtain st1 where st1: "inline_start False (Some (example_card example_url)) = Some st1"
    by (simp add: inline_start_def example_card_def match_examples hydrate_def)
  obtain st2 where st2: "inline_start True (Some (example_card example_url)) = Some st2" "observing st2"
    by (simp add: inline_start_def example_card_def match_examples)
  note t = lazy_fallback_behaviour [where i = 0 and cs = "[example_container example_url]"
      and u = example_url and evs = "[Timeout 0]" and evs' = "[Intersection 0 True, Timeout 0]"
      and sio = True and prm = False and sio' = False and oevs = "[Visibility 0 True]"
      and c = "example_card example_url" and st = st1 and st' = st2 and b = False and es = "[]"]
  have a: "isLoaded (embeds (lazy_run [Timeout 0] (setupLazyLoading False False [example_container example_url])) ! 0)"
    using t [THEN conjunct1] h1 h2 h3(1,2) by blast
  have b: "lazy_run [Intersection 0 True, Timeout 0] (setupLazyLoading True True [example_container example_url]) =
     setupLazyLoading True True [example_container example_url]"
    using t [THEN conjunct2, THEN conjunct1] h3(3) by blast
  have c: "orch_run [Visibility 0 True] (setupTikTokEmbeds False False [example_container example_url]) =
     setupTikTokEmbeds False False [example_container example_url]"
    using t [THEN conjunct2, THEN conjunct2, THEN conjunct1] h3(4) h4 by blast
  have d: "hydrated (el st1) = Some ''1'' \<and> children (el st1) = children (example_card example_url) \<and>
      map (\<lambda>x. src_string (src x)) (inline_frames st1) =
        [Some (''https://www.tiktok.com/embed/v2/'' @ videoId st1)] \<and>
      videoId st1 = ''123456''"
    using t [THEN conjunct2, THEN conjunct2, THEN conjunct2, THEN conjunct1] st1 h5 by auto
  have e: "hydrated (el (inline_deliver True [False] st2)) = Some ''1'' \<and>
      children (el (inline_deliver True [False] st2)) = children (el st2)"
    using t [THEN conjunct2, THEN conjunct2, THEN conjunct2, THEN conjunct2] st2(2) by blast
  from h1 h2 h5(1) a b c d e st1 st2 show ?thesis by simp
qed

subsection \<open>How long a container is observed\<close>

lemma orch_observed_shrinks: "i \<notin> observedSlots p \<Longrightarrow> i \<notin> observedSlots (orch_step ev p)"
  by (cases ev) (auto split: slot.splits prod.splits)

lemma orch_observed_shrinks_run: "i \<notin> observedSlots p \<Longrightarrow> i \<notin> observedSlots (orch_run evs p)"
  by (induction evs arbitrary: p) (simp_all add: orch_observed_shrinks del: orch_step.simps)

lemma orch_unobserved_noop: "i \<notin> observedSlots p \<Longrightarrow> orch_step (Visibility i b) p = p"
  by simp

lemma lazy_observed_const: "observedContainers (lazy_step ev p) = observedContainers p"
  by (cases ev) (auto simp: with_embed_def split: completion.splits)

lemma lazy_observed_const_run: "observedContainers (lazy_run evs p) = observedContainers p"
  by (induction evs arbitrary: p) (simp_all add: lazy_observed_const del: lazy_step.simps)

text \<open>
  Claim C7, as the claim states it, fails for \<open>setupLazyLoading\<close>: after the first
  intersecting report has hydrated the Placeholder the container is still observed, and
  a later report is acted on, here after an \<open>unload\<close>, where it loads a second iframe.
\<close>

theorem observer_keeps_watching_counterexample:
  "isLoaded (embeds (lazy_run [Intersection 0 True]
      (setupLazyLoading False True [example_container example_url])) ! 0) \<and>
   0 \<in> observedContainers (lazy_run [Intersection 0 True]
      (setupLazyLoading False True [example_container example_url])) \<and>
   \<not> isLoaded (embeds (lazy_run [Intersection 0 True, UnloadCall 0]
      (setupLazyLoading False True [example_container example_url])) ! 0) \<and>
   isLoaded (embeds (lazy_run [Intersection 0 True, UnloadCall 0, Intersection 0 True]
      (setupLazyLoading False True [example_container example_url])) ! 0) \<and>
   iframe (embeds (lazy_run [Intersection 0 True, UnloadCall 0, Intersection 0 True]
      (setupLazyLoading False True [example_container example_url])) ! 0) = Some 1"
  by (simp add: setupLazyLoading_def with_embed_def load_def unload_def extractVideoId_def
       example_url_def example_container_def Let_def)

text \<open>
  Claim C7, amended. In \<open>setupTikTokEmbeds\<close> observation is one-shot per container: the
  first intersecting report for an observed container without an embed constructs its
  \<open>TikTokEmbed\<close> and unobserves the container, which is never observed again, so that
  every later report for it changes nothing. In \<open>setupLazyLoading\<close> the observer never
  unsubscribes: the set of observed containers stays as it is over every sequence of
  events, and a report for a Placeholder that is already loaded changes nothing. The
  observer of the inline script disconnects on the first report that hydrates, and no
  report is delivered after that.
\<close>

theorem observation_one_shot:
  "(i \<in> observedSlots p \<and> i < length (slots p) \<and> i \<notin> tagged p \<longrightarrow>
      i \<notin> observedSlots (orch_step (Visibility i True) p) \<and>
      slots (orch_step (Visibility i True) p) ! i = Wrapped (TikTokEmbed (slot_container (slots p ! i))) \<and>
      i \<notin> observedSlots (orch_run evs (orch_step (Visibility i True) p)) \<and>
      orch_step (Visibility i b) (orch_run evs (orch_step (Visibility i True) p)) =
        orch_run evs (orch_step (Visibility i True) p)) \<and>
   observedContainers (lazy_run levs q) = observedContainers q \<and>
   (isLoaded (embeds q ! j) \<longrightarrow> lazy_step (Intersection j b') q = q) \<and>
   (observing st \<and> (b'' \<or> reduced) \<longrightarrow> \<not> observing (inline_deliver reduced (b'' # es) st)) \<and>
   (\<not> observing st' \<longrightarrow> inline_deliver reduced' es' st' = st')"
proof -
  have a: "i \<notin> observedSlots (orch_step (Visibility i True) p) \<and>
      slots (orch_step (Visibility i True) p) ! i = Wrapped (TikTokEmbed (slot_container (slots p ! i))) \<and>
      i \<notin> observedSlots (orch_run evs (orch_step (Visibility i True) p)) \<and>
      orch_step (Visibility i b) (orch_run evs (orch_step (Visibility i True) p)) =
        orch_run evs (orch_step (Visibility i True) p)"
    if asm: "i \<in> observedSlots p" "i < length (slots p)" "i \<notin> tagged p"
  proof -
    have 1: "i \<notin> observedSlots (orch_step (Visibility i True) p)"
      using asm by simp
    have 2: "slots (orch_step (Visibility i True) p) ! i = Wrapped (TikTokEmbed (slot_container (slots p ! i)))"
      using asm by simp
    note 3 = orch_observed_shrinks_run [OF 1, of evs]
    note 4 = orch_unobserved_noop [OF 3, of b]
    from 1 2 3 4 show ?thesis by blast
  qed
  have c: "lazy_step (Intersection j b') q = q" if "isLoaded (embeds q ! j)"
    using that by simp
  have d: "\<not> observing (inline_deliver reduced (b'' # es) st)" if "observing st" "b'' \<or> reduced"
    using that by (auto simp: inline_deliver_def split: prod.splits)
  have e: "inline_deliver reduced' es' st' = st'" if "\<not> observing st'"
    using that by (simp add: inline_deliver_def)
  from a c d e lazy_observed_const_run [of levs q] show ?thesis by blast
qed

theorem observation_one_shot_witness:
  "0 \<in> observedSlots observed_page \<and> 0 < length (slots observed_page) \<and> 0 \<notin> tagged observed_page \<and>
   0 \<notin> observedSlots (orch_step (Visibility 0 True) observed_page) \<and>
   orch_step (Visibility 0 False)
     (orch_run [Visibility 0 True, ButtonClick 0] (orch_step (Visibility 0 True) observed_page)) =
     orch_run [Visibility 0 True, ButtonClick 0] (orch_step (Visibility 0 True) observed_page) \<and>
   isLoaded (embeds (lazy_run [Intersection 0 True]
      (setupLazyLoading False True [example_container example_url])) ! 0) \<and>
   lazy_step (Intersection 0 True) (lazy_run [Intersection 0 True]
      (setupLazyLoading False True [example_container example_url])) =
     lazy_run [Intersection 0 True] (setupLazyLoading False True [example_container example_url]) \<and>
   (\<exists>st. inline_start True (Some (example_card example_url)) = Some st \<and> observing st \<and>
      \<not> observing (inline_deliver False [True] st) \<and>
      inline_deliver False [True] (inline_deliver False [True] st) = inline_deliver False [True] st)"
proof -
  have h1: "0 \<in> observedSlots observed_page" "0 < length (slots observed_page)"
    "0 \<notin> tagged observed_page"
    by (simp_all add: observed_page_def setupTikTokEmbeds_def)
  have h2: "isLoaded (embeds (lazy_run [Intersection 0 True]
      (setupLazyLoading False True [example_container example_url])) ! 0)"
    by (simp add: setupLazyLoading_def with_embed_def load_def extractVideoId_def
         example_url_def example_container_def Let_def)
  obtain st2 where st2: "inline_start True (Some (example_card example_url)) = Some st2" "observing st2"
    by (simp add: inline_start_def example_card_def match_examples)
  have h3: "True \<or> False" by simp
  note t = observation_one_shot [where i = 0 and p = observed_page
      and evs = "[Visibility 0 True, ButtonClick 0]" and b = False
      and q = "lazy_run [Intersection 0 True] (setupLazyLoading False True [example_container example_url])"
      and j = 0 and b' = True and st = st2 and b'' = True and reduced = False and es = "[]"]
  note t' = observation_one_shot [where st' = "inline_deliver False [True] st2" and reduced' = False
      and es' = "[True]"]
  have a: "0 \<notin> observedSlots (orch_step (Visibility 0 True) observed_page) \<and>
   orch_step (Visibility 0 False)
     (orch_run [Visibility 0 True, ButtonClick 0] (orch_step (Visibility 0 True) observed_page)) =
     orch_run [Visibility 0 True, ButtonClick 0] (orch_step (Visibility 0 True) observed_page)"
    using t [THEN conjunct1] h1 by blast
  have b: "lazy_step (Intersection 0 True) (lazy_run [Intersection 0 True]
      (setupLazyLoading False True [example_container example_url])) =
     lazy_run [Intersection 0 True] (setupLazyLoading False True [example_container example_url])"
    using t [THEN conjunct2, THEN conjunct2, THEN conjunct1] h2 by blast
  have c: "\<not> observing (inline_deliver False [True] st2)"
    using t [THEN conjunct2, THEN conjunct2, THEN conjunct2, THEN conjunct1] st2(2) h3 by blast
  have d: "inline_deliver False [True] (inline_deliver False [True] st2) = inline_deliver False [True] st2"
    using t' [THEN conjunct2, THEN conjunct2, THEN conjunct2, THEN conjunct2] c by blast
  from h1 h2 a b c d st2 show ?thesis by simp
qed


end
